theory Spec2Isabelle
  imports
    Complex_Main
    "HOL-Library.Char_ord"
    "HOL-Library.List_Lexorder"
    "HOL-Library.Product_Lexorder"
begin

section \<open>The Zava retail dataset generators\<close>

text \<open>
  Two generators populate a relational retail database:
  \<^item> the ORM generator, \<^verbatim>\<open>src/data/src/zava_shop_datagenerator/__main__.py\<close>
    (definitions without suffix, or with suffix \<open>_orm\<close> where a name is shared);
  \<^item> the legacy generator, \<^verbatim>\<open>src/data/data_prep/generate_zava_sqlite.py\<close>
    (definitions with suffix \<open>_legacy\<close>).

  Conventions of the embedding.
  \<^item> A Python \<open>float\<close> is the rational number it denotes (\<open>rat\<close>). The amounts that the
    generators store (cost, base price, unit price, discount and total amount) are
    computed in IEEE binary64 arithmetic as Python computes them: \<open>float_round\<close> is the
    double nearest to a rational, every float operation rounds its exact result, and
    \<open>round(x, 2)\<close> is \<open>round2\<close>. A result beyond the largest double is outside the
    model (the prices of a catalog are far below it). The draws of the \<open>random\<close> module,
    the supplier scores computed from them and the sums of the statistics reporters are
    kept exact.
  \<^item> A table with an auto-assigned integer primary key is a list of (key, row) pairs in
    insertion order; an inserted row gets the largest key of the table plus one (SQLite's
    rowid rule), so keys start at 1 in an empty table. A table whose key is supplied by
    the program is a list of rows.
  \<^item> Python's global \<open>random\<close> module and the Faker instance are external sources. They
    are the record \<open>rnd\<close>: a stream of raw draws with a read position, and a stream of
    names with a read position. Every function that draws takes the \<open>rnd\<close> and returns
    the advanced one.
  \<^item> A raised exception is the \<open>Inl\<close> branch of a sum; the stage wrappers of the source
    only log and re-raise, so an \<open>Inl\<close> ends the run.
  \<^item> Columns and tables that no stage reads back (supplier contact data, supplier
    contracts, approvers, company policies, timestamps, log output) are left out.
  \<^item> Of the constraints of the legacy schema, the primary key of the embeddings table and
    the \<open>NOT NULL\<close> store of an order are modelled. The \<open>UNIQUE\<close> constraints (store name,
    email, category name, SKU) and the constraints of the ORM model classes, which are not
    among the sources, are not: a run the database would reject for a repeated value is
    still a run of the model, so a theorem about all runs of the model covers all runs of
    the program.
\<close>

subsection \<open>Exceptions\<close>

datatype error =
  ValueError | KeyError | IndexError | TypeError | IntegrityError | ZeroDivisionError | Exception

subsection \<open>The random module and Faker\<close>

record rnd =
  raw :: "nat \<Rightarrow> rat"
  pos :: nat
  fake :: "nat \<Rightarrow> string"
  fpos :: nat

text \<open>\<open>random.random()\<close>: the next draw, a number in \<open>[0, 1)\<close>.\<close>

definition random_random :: "rnd \<Rightarrow> rat \<times> rnd" where
  "random_random r = (frac (raw r (pos r)), r\<lparr>pos := Suc (pos r)\<rparr>)"

text \<open>\<open>random.randint(a, b)\<close>: an integer \<open>N\<close> with \<open>a \<le> N \<le> b\<close>.\<close>

definition random_randint :: "int \<Rightarrow> int \<Rightarrow> rnd \<Rightarrow> int \<times> rnd" where
  "random_randint a b r =
     (case random_random r of (u, r') \<Rightarrow> (a + \<lfloor>u * of_int (b - a + 1)\<rfloor>, r'))"

text \<open>\<open>random.uniform(a, b)\<close> is \<open>a + (b - a) * random()\<close>.\<close>

definition random_uniform :: "rat \<Rightarrow> rat \<Rightarrow> rnd \<Rightarrow> rat \<times> rnd" where
  "random_uniform a b r = (case random_random r of (u, r') \<Rightarrow> (a + (b - a) * u, r'))"

text \<open>\<open>random.choice(seq)\<close> raises \<open>IndexError\<close> on an empty sequence.\<close>

definition random_choice :: "'a list \<Rightarrow> rnd \<Rightarrow> error + ('a \<times> rnd)" where
  "random_choice xs r =
     (if xs = [] then Inl IndexError
      else case random_random r of
        (u, r') \<Rightarrow> Inr (xs ! nat \<lfloor>u * of_nat (length xs)\<rfloor>, r'))"

text \<open>\<open>bisect.bisect_right(a, x, lo, hi)\<close>, the binary search of the standard library.\<close>

function bisect :: "rat list \<Rightarrow> rat \<Rightarrow> nat \<Rightarrow> nat \<Rightarrow> nat" where
  "bisect a x lo hi =
     (if lo < hi then
        (if x < a ! ((lo + hi) div 2) then bisect a x lo ((lo + hi) div 2)
         else bisect a x ((lo + hi) div 2 + 1) hi)
      else lo)"
  by pat_completeness auto
termination
  by (relation "measure (\<lambda>(a, x, lo, hi). hi - lo)") auto

declare bisect.simps [simp del]

fun accumulate_from :: "rat \<Rightarrow> rat list \<Rightarrow> rat list" where
  "accumulate_from acc [] = []"
| "accumulate_from acc (w # ws) = (acc + w) # accumulate_from (acc + w) ws"

definition accumulate :: "rat list \<Rightarrow> rat list" where
  "accumulate ws = accumulate_from 0 ws"

text \<open>
  \<open>random.choices(population, weights=weights, k=1)[0]\<close>: the weights are accumulated;
  a length mismatch or a total that is not positive raises \<open>ValueError\<close>, an empty
  population raises \<open>IndexError\<close> (at \<open>cum_weights[-1]\<close>); the result is
  \<open>population[bisect(cum_weights, random() * total, 0, n - 1)]\<close>.
\<close>

definition random_choices :: "'a list \<Rightarrow> rat list \<Rightarrow> rnd \<Rightarrow> error + ('a \<times> rnd)" where
  "random_choices population weights r =
     (let n = length population; cum_weights = accumulate weights in
      if length cum_weights \<noteq> n then Inl ValueError
      else if cum_weights = [] then Inl IndexError
      else if last cum_weights \<le> 0 then Inl ValueError
      else case random_random r of
        (u, r') \<Rightarrow> Inr (population ! bisect cum_weights (u * last cum_weights) 0 (n - 1), r'))"

text \<open>\<open>fake.first_name()\<close> and \<open>fake.last_name()\<close>: the next name of the Faker stream.\<close>

definition fake_name :: "rnd \<Rightarrow> string \<times> rnd" where
  "fake_name r = (fake r (fpos r), r\<lparr>fpos := Suc (fpos r)\<rparr>)"

subsection \<open>Floating-point arithmetic\<close>

text \<open>The integer nearest to a rational, a tie going to the even one.\<close>

definition round_half_even :: "rat \<Rightarrow> int" where
  "round_half_even q =
     (let f = \<lfloor>q\<rfloor>; d = q - of_int f in
      if d < 1 / 2 then f
      else if 1 / 2 < d then f + 1
      else if even f then f else f + 1)"

text \<open>The number of binary digits of a positive integer (\<open>int.bit_length()\<close>).\<close>

function bit_length :: "int \<Rightarrow> nat" where
  "bit_length n = (if n \<le> 0 then 0 else Suc (bit_length (n div 2)))"
  by pat_completeness auto
termination
  by (relation "measure nat") auto

declare bit_length.simps [simp del]

definition pow2 :: "int \<Rightarrow> rat" where
  "pow2 k = (if 0 \<le> k then 2 ^ nat k else 1 / 2 ^ nat (- k))"

text \<open>
  The exponent of the leading binary digit of a positive rational \<open>a / b\<close>: it is the
  difference of the bit lengths of \<open>a\<close> and \<open>b\<close>, or one less.
\<close>

definition log2_floor :: "rat \<Rightarrow> int" where
  "log2_floor q =
     (case quotient_of q of (a, b) \<Rightarrow>
        let k = int (bit_length a) - int (bit_length b)
        in if pow2 k \<le> q then k else k - 1)"

text \<open>
  The binary64 number nearest to \<open>q\<close>, a tie going to the even significand. A double has
  53 significant binary digits, and its last digit has weight \<open>2 ^ (- 1074)\<close> or more
  (the subnormal numbers have fewer digits).
\<close>

definition float_round :: "rat \<Rightarrow> rat" where
  "float_round q =
     (if q = 0 then 0
      else let e = max (log2_floor \<bar>q\<bar> - 52) (- 1074);
               m = round_half_even (\<bar>q\<bar> / pow2 e)
           in sgn q * of_int m * pow2 e)"

text \<open>
  The operators \<open>*\<close>, \<open>/\<close> and \<open>-\<close> on floats, \<open>float(i)\<close> for an integer, and a decimal
  literal such as \<open>0.67\<close>: the exact result, rounded. Division is by a nonzero constant
  wherever the generators divide amounts.
\<close>

definition float_mul :: "rat \<Rightarrow> rat \<Rightarrow> rat" where
  "float_mul x y = float_round (x * y)"

definition float_div :: "rat \<Rightarrow> rat \<Rightarrow> rat" where
  "float_div x y = float_round (x / y)"

definition float_sub :: "rat \<Rightarrow> rat \<Rightarrow> rat" where
  "float_sub x y = float_round (x - y)"

definition float_of_int :: "int \<Rightarrow> rat" where
  "float_of_int i = float_round (of_int i)"

text \<open>
  \<open>round(x, 2)\<close> on a float: CPython rounds the exact value of \<open>x\<close> to two decimals, a
  tie going to the even digit, and returns the double nearest to that decimal.
\<close>

definition round2 :: "rat \<Rightarrow> rat" where
  "round2 x = float_round (of_int (round_half_even (x * 100)) / 100)"

subsection \<open>Strings\<close>

definition digit_char :: "nat \<Rightarrow> char" where
  "digit_char d = char_of (48 + d)"

function str_nat :: "nat \<Rightarrow> string" where
  "str_nat n = (if n < 10 then [digit_char n] else str_nat (n div 10) @ [digit_char (n mod 10)])"
  by pat_completeness auto
termination
  by (relation "measure id") auto

declare str_nat.simps [simp del]

text \<open>\<open>str(i)\<close>, as the f-strings format an integer.\<close>

definition str_int :: "int \<Rightarrow> string" where
  "str_int i = (if i < 0 then CHR ''-'' # str_nat (nat (- i)) else str_nat (nat i))"

definition lower_char :: "char \<Rightarrow> char" where
  "lower_char c =
     (if 65 \<le> (of_char c :: nat) \<and> (of_char c :: nat) \<le> 90
      then char_of ((of_char c :: nat) + 32) else c)"

text \<open>\<open>s.lower()\<close> on ASCII letters.\<close>

definition lower :: "string \<Rightarrow> string" where
  "lower s = map lower_char s"

text \<open>\<open>s.replace(old, new)\<close> for a one-character \<open>old\<close>.\<close>

definition replace :: "char \<Rightarrow> string \<Rightarrow> string \<Rightarrow> string" where
  "replace old new s = concat (map (\<lambda>c. if c = old then new else [c]) s)"

definition apostrophe :: char where
  "apostrophe = CHR 0x27"

text \<open>\<open>generate_phone_number\<close> (the same in both generators).\<close>

definition generate_phone_number :: "rnd \<Rightarrow> string \<times> rnd" where
  "generate_phone_number r =
     (case random_randint 200 999 r of (a, r1) \<Rightarrow>
      case random_randint 200 999 r1 of (b, r2) \<Rightarrow>
      case random_randint 1000 9999 r2 of (c, r3) \<Rightarrow>
        (''('' @ str_int a @ '') '' @ str_int b @ ''-'' @ str_int c, r3))"

subsection \<open>Tables with an auto-assigned key\<close>

type_synonym 'r table = "(nat \<times> 'r) list"

definition next_id :: "'r table \<Rightarrow> nat" where
  "next_id t = Suc (fold max (map fst t) 0)"

text \<open>
  \<open>bulk_insert_objects\<close> (and \<open>executemany\<close> of an \<open>INSERT\<close>): the rows are appended in
  order, each with the next free key.
\<close>

definition bulk_insert_objects :: "'r table \<Rightarrow> 'r list \<Rightarrow> 'r table" where
  "bulk_insert_objects t objects = t @ zip [next_id t ..< next_id t + length objects] objects"

definition ids :: "'r table \<Rightarrow> nat list" where
  "ids t = map fst t"

text \<open>A dict built by a comprehension over rows: a later row overwrites an earlier one.\<close>

definition dict_of :: "('k \<times> 'v) list \<Rightarrow> 'k \<Rightarrow> 'v option" where
  "dict_of kvs = map_of (rev kvs)"


definition bind_result :: "error + 'a \<Rightarrow> ('a \<Rightarrow> error + 'b) \<Rightarrow> error + 'b" where
  "bind_result m f = (case m of Inl e \<Rightarrow> Inl e | Inr x \<Rightarrow> f x)"

section \<open>The ORM generator\<close>

subsection \<open>Reference data\<close>

text \<open>
  \<open>stores_reference.json\<close>, \<open>product_data.json\<close> and \<open>supplier_data.json\<close> as parsed. A JSON
  object is the list of its (key, value) pairs in file order, with distinct keys; an
  optional key is an \<open>option\<close>. An empty \<open>rls_user_id\<close> stands for every falsy value.
\<close>

record store_config =
  sc_store_name :: string
  sc_is_online :: bool
  sc_rls_user_id :: string
  sc_customer_distribution_weight :: rat
  sc_product_skus :: "string list option"

record product_entry =
  pd_sku :: string
  pd_name :: string
  pd_category :: string
  pd_subcategory :: string
  pd_price :: rat
  pd_supplier_id :: nat
  pd_description :: string
  pd_stock_level :: "int option"
  pd_minimum_order_quantity :: "int option"
  pd_image_embedding :: "rat list option"
  pd_description_embedding :: "rat list option"

record supplier_entry =
  su_supplier_id :: nat
  su_supplier_name :: string
  su_lead_time_days :: int
  su_rating :: rat

record reference =
  stores :: "(string \<times> store_config) list"
  products_list :: "product_entry list"
  supplier_data :: "(nat \<times> supplier_entry) list"

subsection \<open>The database\<close>

record store_row =
  s_store_name :: string
  s_rls_user_id :: string
  s_is_online :: bool

record product_type_row =
  pt_category_id :: nat
  pt_type_name :: string

record supplier_row =
  sup_supplier_id :: nat
  sup_supplier_name :: string
  sup_lead_time_days :: int
  sup_supplier_rating :: rat

text \<open>
  \<open>sp_evaluation_days_before\<close> stands for \<open>evaluation_date\<close>: the number of days before
  the first day of the current month.
\<close>

record performance_row =
  sp_supplier_id :: nat
  sp_evaluation_days_before :: nat
  sp_cost_score :: rat
  sp_quality_score :: rat
  sp_delivery_score :: rat
  sp_compliance_score :: rat
  sp_overall_score :: rat

record product_row =
  p_sku :: string
  p_product_name :: string
  p_category_id :: nat
  p_type_id :: nat
  p_supplier_id :: nat
  p_cost :: rat
  p_base_price :: rat
  p_gross_margin_percent :: rat
  p_product_description :: string
  p_procurement_lead_time_days :: int
  p_minimum_order_quantity :: int
  p_discontinued :: bool

record embedding_row =
  e_product_id :: nat
  e_embedding :: "rat list"

record customer_row =
  c_first_name :: string
  c_last_name :: string
  c_email :: string
  c_phone :: string
  c_primary_store_id :: "nat option"

record inventory_row =
  i_store_id :: nat
  i_product_id :: nat
  i_stock_level :: int

text \<open>\<open>o_days_ago\<close> stands for \<open>order_date\<close>: the number of days before today.\<close>

record order_row =
  o_customer_id :: nat
  o_store_id :: nat
  o_days_ago :: int

record order_item_row =
  oi_order_id :: nat
  oi_store_id :: nat
  oi_product_id :: nat
  oi_quantity :: int
  oi_unit_price :: rat
  oi_discount_percent :: int
  oi_discount_amount :: rat
  oi_total_amount :: rat

record db =
  t_stores :: "store_row table"
  t_categories :: "string table"
  t_product_types :: "product_type_row table"
  t_suppliers :: "supplier_row list"
  t_supplier_performance :: "performance_row table"
  t_products :: "product_row table"
  t_image_embeddings :: "embedding_row list"
  t_description_embeddings :: "embedding_row list"
  t_customers :: "customer_row table"
  t_inventory :: "inventory_row list"
  t_orders :: "order_row table"
  t_order_items :: "order_item_row table"

text \<open>The database after \<open>create_database_schema\<close> on a removed file.\<close>

definition empty_db :: db where
  "empty_db = \<lparr>t_stores = [], t_categories = [], t_product_types = [], t_suppliers = [],
     t_supplier_performance = [], t_products = [], t_image_embeddings = [],
     t_description_embeddings = [], t_customers = [], t_inventory = [], t_orders = [],
     t_order_items = []\<rparr>"


subsection \<open>Stores, categories, product types\<close>

fun store_objects :: "(string \<times> store_config) list \<Rightarrow> error + store_row list" where
  "store_objects [] = Inr []"
| "store_objects ((store_id, store_config) # rest) =
     (if sc_rls_user_id store_config = [] then Inl ValueError
      else bind_result (store_objects rest) (\<lambda>objs.
        Inr (\<lparr>s_store_name = sc_store_name store_config,
               s_rls_user_id = sc_rls_user_id store_config,
               s_is_online = sc_is_online store_config\<rparr> # objs)))"

definition insert_stores :: "reference \<Rightarrow> db \<Rightarrow> error + db" where
  "insert_stores ref d =
     bind_result (store_objects (stores ref)) (\<lambda>objs.
       Inr (d\<lparr>t_stores := bulk_insert_objects (t_stores d) objs\<rparr>))"

definition insert_categories :: "reference \<Rightarrow> db \<Rightarrow> error + db" where
  "insert_categories ref d =
     (let categories = set (map pd_category (products_list ref));
          category_objects = sorted_list_of_set categories
      in Inr (d\<lparr>t_categories := bulk_insert_objects (t_categories d) category_objects\<rparr>))"

text \<open>\<open>{cat.category_name: cat.category_id for cat in categories_in_db}\<close>\<close>

definition category_mapping :: "db \<Rightarrow> string \<Rightarrow> nat option" where
  "category_mapping d = dict_of (map (\<lambda>(category_id, category_name). (category_name, category_id)) (t_categories d))"

fun product_type_objects ::
  "(string \<Rightarrow> nat option) \<Rightarrow> (string \<times> string) list \<Rightarrow> error + product_type_row list" where
  "product_type_objects cm [] = Inr []"
| "product_type_objects cm ((category, subcategory) # rest) =
     (case cm category of
        None \<Rightarrow> Inl KeyError
      | Some category_id \<Rightarrow>
          bind_result (product_type_objects cm rest) (\<lambda>objs.
            Inr (\<lparr>pt_category_id = category_id, pt_type_name = subcategory\<rparr> # objs)))"

definition insert_product_types :: "reference \<Rightarrow> db \<Rightarrow> error + db" where
  "insert_product_types ref d =
     (let type_set = set (map (\<lambda>product. (pd_category product, pd_subcategory product)) (products_list ref))
      in bind_result (product_type_objects (category_mapping d) (sorted_list_of_set type_set)) (\<lambda>objs.
           Inr (d\<lparr>t_product_types := bulk_insert_objects (t_product_types d) objs\<rparr>)))"

subsection \<open>Suppliers and their performance history\<close>

definition supplier_objects :: "(nat \<times> supplier_entry) list \<Rightarrow> supplier_row list" where
  "supplier_objects sd =
     map (\<lambda>(supplier_id_str, supplier).
            \<lparr>sup_supplier_id = su_supplier_id supplier,
             sup_supplier_name = su_supplier_name supplier,
             sup_lead_time_days = su_lead_time_days supplier,
             sup_supplier_rating = su_rating supplier\<rparr>) sd"

text \<open>\<open>max(1.0, min(5.0, x))\<close>\<close>

definition clamp_score :: "rat \<Rightarrow> rat" where
  "clamp_score x = max 1 (min 5 x)"

text \<open>The body of the loop over \<open>months_ago\<close>: eight draws, then the weighted score.\<close>

definition performance_evaluation :: "supplier_row \<Rightarrow> nat \<Rightarrow> rnd \<Rightarrow> performance_row \<times> rnd" where
  "performance_evaluation supplier_obj months_ago r =
     (case random_uniform (35 / 10) (48 / 10) r of (base_cost_score, r1) \<Rightarrow>
      case random_uniform (32 / 10) (49 / 10) r1 of (base_quality_score, r2) \<Rightarrow>
      case random_uniform 3 (47 / 10) r2 of (base_delivery_score, r3) \<Rightarrow>
      case random_uniform (42 / 10) 5 r3 of (base_compliance_score, r4) \<Rightarrow>
      case random_uniform (- (3 / 10)) (3 / 10) r4 of (j1, r5) \<Rightarrow>
      case random_uniform (- (4 / 10)) (4 / 10) r5 of (j2, r6) \<Rightarrow>
      case random_uniform (- (5 / 10)) (5 / 10) r6 of (j3, r7) \<Rightarrow>
      case random_uniform (- (2 / 10)) (2 / 10) r7 of (j4, r8) \<Rightarrow>
        (let cost_score = clamp_score (base_cost_score + j1);
             quality_score = clamp_score (base_quality_score + j2);
             delivery_score = clamp_score (base_delivery_score + j3);
             compliance_score = clamp_score (base_compliance_score + j4);
             overall_score = cost_score * (3 / 10) + quality_score * (3 / 10)
                           + delivery_score * (25 / 100) + compliance_score * (15 / 100)
         in (\<lparr>sp_supplier_id = sup_supplier_id supplier_obj,
               sp_evaluation_days_before = months_ago * 30,
               sp_cost_score = cost_score,
               sp_quality_score = quality_score,
               sp_delivery_score = delivery_score,
               sp_compliance_score = compliance_score,
               sp_overall_score = overall_score\<rparr>, r8)))"

fun performance_evaluations ::
  "supplier_row \<Rightarrow> nat list \<Rightarrow> rnd \<Rightarrow> performance_row list \<times> rnd" where
  "performance_evaluations supplier_obj [] r = ([], r)"
| "performance_evaluations supplier_obj (months_ago # rest) r =
     (case performance_evaluation supplier_obj months_ago r of (obj, r1) \<Rightarrow>
      case performance_evaluations supplier_obj rest r1 of (objs, r2) \<Rightarrow> (obj # objs, r2))"

text \<open>\<open>for months_ago in range(0, random.randint(3, 7))\<close>, for one supplier.\<close>

definition supplier_evaluations :: "supplier_row \<Rightarrow> rnd \<Rightarrow> performance_row list \<times> rnd" where
  "supplier_evaluations supplier_obj r =
     (case random_randint 3 7 r of (n, r1) \<Rightarrow>
        performance_evaluations supplier_obj [0 ..< nat n] r1)"

fun performance_objects :: "supplier_row list \<Rightarrow> rnd \<Rightarrow> performance_row list \<times> rnd" where
  "performance_objects [] r = ([], r)"
| "performance_objects (supplier_obj # rest) r =
     (case supplier_evaluations supplier_obj r of (objs, r1) \<Rightarrow>
      case performance_objects rest r1 of (others, r2) \<Rightarrow> (objs @ others, r2))"

definition insert_suppliers :: "reference \<Rightarrow> db \<Rightarrow> rnd \<Rightarrow> error + (db \<times> rnd)" where
  "insert_suppliers ref d r =
     (let d1 = d\<lparr>t_suppliers := t_suppliers d @ supplier_objects (supplier_data ref)\<rparr> in
      case performance_objects (t_suppliers d1) r of
        (objs, r') \<Rightarrow>
          Inr (d1\<lparr>t_supplier_performance := bulk_insert_objects (t_supplier_performance d1) objs\<rparr>, r'))"

subsection \<open>Products and embeddings\<close>

text \<open>\<open>type_mapping[(pt.category_id, pt.type_name)] = pt.type_id\<close>\<close>

definition type_mapping :: "db \<Rightarrow> nat \<times> string \<Rightarrow> nat option" where
  "type_mapping d = dict_of (map (\<lambda>(type_id, pt). ((pt_category_id pt, pt_type_name pt), type_id)) (t_product_types d))"

text \<open>\<open>{int(sid): supplier["lead_time_days"] for sid, supplier in supplier_data.items()}\<close>\<close>

definition supplier_lead_times :: "reference \<Rightarrow> nat \<Rightarrow> int option" where
  "supplier_lead_times ref = dict_of (map (\<lambda>(sid, supplier). (sid, su_lead_time_days supplier)) (supplier_data ref))"

text \<open>\<open>d.get(k, default)\<close>\<close>

definition get_default :: "('k \<Rightarrow> 'v option) \<Rightarrow> 'k \<Rightarrow> 'v \<Rightarrow> 'v" where
  "get_default m k dflt = (case m k of None \<Rightarrow> dflt | Some v \<Rightarrow> v)"

text \<open>The \<open>Product(...)\<close> of one catalog entry whose category and type resolved.\<close>

definition product_object :: "reference \<Rightarrow> product_entry \<Rightarrow> nat \<Rightarrow> nat \<Rightarrow> product_row" where
  "product_object ref product category_id type_id =
     (let supplier_id = pd_supplier_id product;
          base_price = float_round (pd_price product);
          cost = round2 (float_mul base_price (float_round (67 / 100)));
          procurement_lead_time = get_default (supplier_lead_times ref) supplier_id 15
      in \<lparr>p_sku = pd_sku product,
          p_product_name = pd_name product,
          p_category_id = category_id,
          p_type_id = type_id,
          p_supplier_id = supplier_id,
          p_cost = cost,
          p_base_price = base_price,
          p_gross_margin_percent = 33,
          p_product_description = pd_description product,
          p_procurement_lead_time_days = procurement_lead_time,
          p_minimum_order_quantity = (case pd_minimum_order_quantity product of None \<Rightarrow> 10 | Some q \<Rightarrow> q),
          p_discontinued = False\<rparr>)"

text \<open>
  The loop of \<open>insert_products\<close>: a missing category raises \<open>KeyError\<close>; an entry whose
  type is not found, or found with the falsy id 0, is skipped.
\<close>

fun product_objects ::
  "reference \<Rightarrow> (string \<Rightarrow> nat option) \<Rightarrow> (nat \<times> string \<Rightarrow> nat option) \<Rightarrow> product_entry list
     \<Rightarrow> error + product_row list" where
  "product_objects ref cm tm [] = Inr []"
| "product_objects ref cm tm (product # rest) =
     (case cm (pd_category product) of
        None \<Rightarrow> Inl KeyError
      | Some category_id \<Rightarrow>
          (case tm (category_id, pd_subcategory product) of
             None \<Rightarrow> product_objects ref cm tm rest
           | Some type_id \<Rightarrow>
               if type_id = 0 then product_objects ref cm tm rest
               else bind_result (product_objects ref cm tm rest) (\<lambda>objs.
                      Inr (product_object ref product category_id type_id # objs))))"

definition insert_products :: "reference \<Rightarrow> db \<Rightarrow> error + db" where
  "insert_products ref d =
     bind_result (product_objects ref (category_mapping d) (type_mapping d) (products_list ref)) (\<lambda>objs.
       Inr (d\<lparr>t_products := bulk_insert_objects (t_products d) objs\<rparr>))"

text \<open>\<open>{p.sku: p.product_id for p in products_in_db}\<close>\<close>

definition sku_to_product_id :: "db \<Rightarrow> string \<Rightarrow> nat option" where
  "sku_to_product_id d = dict_of (map (\<lambda>(product_id, p). (p_sku p, product_id)) (t_products d))"

text \<open>A vector is truthy when it is present and not empty.\<close>

definition truthy_vector :: "rat list option \<Rightarrow> bool" where
  "truthy_vector v = (case v of None \<Rightarrow> False | Some xs \<Rightarrow> xs \<noteq> [])"

fun embedding_objects ::
  "(product_entry \<Rightarrow> rat list option) \<Rightarrow> (string \<Rightarrow> nat option) \<Rightarrow> product_entry list \<Rightarrow> embedding_row list" where
  "embedding_objects field sku_to_id [] = []"
| "embedding_objects field sku_to_id (product # rest) =
     (case sku_to_id (pd_sku product) of
        None \<Rightarrow> embedding_objects field sku_to_id rest
      | Some product_id \<Rightarrow>
          if product_id = 0 then embedding_objects field sku_to_id rest
          else if truthy_vector (field product)
          then \<lparr>e_product_id = product_id, e_embedding = the (field product)\<rparr>
                 # embedding_objects field sku_to_id rest
          else embedding_objects field sku_to_id rest)"

definition populate_product_embeddings :: "reference \<Rightarrow> db \<Rightarrow> error + db" where
  "populate_product_embeddings ref d =
     (let sku_to_id = sku_to_product_id d;
          image_embedding_objects = embedding_objects pd_image_embedding sku_to_id (products_list ref);
          description_embedding_objects = embedding_objects pd_description_embedding sku_to_id (products_list ref)
      in Inr (d\<lparr>t_image_embeddings := t_image_embeddings d @ image_embedding_objects,
               t_description_embeddings := t_description_embeddings d @ description_embedding_objects\<rparr>))"


subsection \<open>Customers\<close>

definition weighted_store_choice :: "reference \<Rightarrow> rnd \<Rightarrow> error + (string \<times> rnd)" where
  "weighted_store_choice ref r =
     (let store_ids = map fst (stores ref);
          weights = map (\<lambda>store. sc_customer_distribution_weight (the (map_of (stores ref) store))) store_ids
      in bind_result (random_choices store_ids weights r) (\<lambda>(selected_id, r').
           Inr (sc_store_name (the (map_of (stores ref) selected_id)), r')))"

text \<open>\<open>{s.store_name: s.store_id for s in stores_in_db}\<close>\<close>

definition store_name_to_id :: "db \<Rightarrow> string \<Rightarrow> nat option" where
  "store_name_to_id d = dict_of (map (\<lambda>(store_id, s). (s_store_name s, store_id)) (t_stores d))"

definition email_of :: "string \<Rightarrow> string \<Rightarrow> int \<Rightarrow> string" where
  "email_of first_name last_name i =
     lower first_name @ ''.'' @ lower last_name @ ''.'' @ str_int i @ ''@example.com''"

text \<open>
  The loop \<open>for i in range(1, num_customers + 1)\<close> of the ORM \<open>insert_customers\<close>;
  \<open>first_store_id\<close> is \<open>stores_in_db[0].store_id\<close>.
\<close>

fun customer_objects ::
  "reference \<Rightarrow> (string \<Rightarrow> nat option) \<Rightarrow> nat \<Rightarrow> int list \<Rightarrow> rnd \<Rightarrow> error + (customer_row list \<times> rnd)" where
  "customer_objects ref name_to_id first_store_id [] r = Inr ([], r)"
| "customer_objects ref name_to_id first_store_id (i # rest) r =
     (case fake_name r of (first_raw, r1) \<Rightarrow>
      case fake_name r1 of (last_raw, r2) \<Rightarrow>
      case generate_phone_number r2 of (phone, r3) \<Rightarrow>
        bind_result (weighted_store_choice ref r3) (\<lambda>(preferred_store_name, r4).
        bind_result (customer_objects ref name_to_id first_store_id rest r4) (\<lambda>(objs, r5).
          Inr (\<lparr>c_first_name = replace apostrophe [] first_raw,
                 c_last_name = replace apostrophe [] last_raw,
                 c_email = email_of (replace apostrophe [] first_raw) (replace apostrophe [] last_raw) i,
                 c_phone = phone,
                 c_primary_store_id = Some (get_default name_to_id preferred_store_name first_store_id)\<rparr>
               # objs, r5))))"

definition insert_customers :: "reference \<Rightarrow> db \<Rightarrow> rnd \<Rightarrow> int \<Rightarrow> error + (db \<times> rnd)" where
  "insert_customers ref d r num_customers =
     (if t_stores d = [] then Inl Exception
      else bind_result
             (customer_objects ref (store_name_to_id d) (fst (hd (t_stores d))) [1 .. num_customers] r)
             (\<lambda>(objs, r'). Inr (d\<lparr>t_customers := bulk_insert_objects (t_customers d) objs\<rparr>, r')))"

subsection \<open>Inventory\<close>

text \<open>\<open>{product["sku"]: product.get("stock_level", 25) for product in products_list}\<close>\<close>

definition sku_to_stock_level :: "reference \<Rightarrow> string \<Rightarrow> int option" where
  "sku_to_stock_level ref =
     dict_of (map (\<lambda>product. (pd_sku product,
                     (case pd_stock_level product of None \<Rightarrow> 25 | Some v \<Rightarrow> v))) (products_list ref))"

text \<open>The inner loop \<open>for sku in product_skus\<close>; a product id that is missing or 0 is skipped.\<close>

fun inventory_for_skus ::
  "(string \<Rightarrow> nat option) \<Rightarrow> (string \<Rightarrow> int option) \<Rightarrow> nat \<Rightarrow> string list \<Rightarrow> inventory_row list" where
  "inventory_for_skus sku_to_id stock db_store_id [] = []"
| "inventory_for_skus sku_to_id stock db_store_id (sku # rest) =
     (case sku_to_id sku of
        None \<Rightarrow> inventory_for_skus sku_to_id stock db_store_id rest
      | Some product_id \<Rightarrow>
          if product_id = 0 then inventory_for_skus sku_to_id stock db_store_id rest
          else \<lparr>i_store_id = db_store_id, i_product_id = product_id,
                 i_stock_level = get_default stock sku 25\<rparr>
               # inventory_for_skus sku_to_id stock db_store_id rest)"

text \<open>The outer loop \<open>for store_id, store_config in stores.items()\<close>.\<close>

fun inventory_objects ::
  "(string \<Rightarrow> nat option) \<Rightarrow> (string \<Rightarrow> nat option) \<Rightarrow> (string \<Rightarrow> int option)
     \<Rightarrow> (string \<times> store_config) list \<Rightarrow> inventory_row list" where
  "inventory_objects name_to_id sku_to_id stock [] = []"
| "inventory_objects name_to_id sku_to_id stock ((store_id, store_config) # rest) =
     (case name_to_id (sc_store_name store_config) of
        None \<Rightarrow> inventory_objects name_to_id sku_to_id stock rest
      | Some db_store_id \<Rightarrow>
          if db_store_id = 0 then inventory_objects name_to_id sku_to_id stock rest
          else inventory_for_skus sku_to_id stock db_store_id
                 (case sc_product_skus store_config of None \<Rightarrow> [] | Some skus \<Rightarrow> skus)
               @ inventory_objects name_to_id sku_to_id stock rest)"

definition insert_inventory :: "reference \<Rightarrow> db \<Rightarrow> error + db" where
  "insert_inventory ref d =
     Inr (d\<lparr>t_inventory := t_inventory d @
            inventory_objects (store_name_to_id d) (sku_to_product_id d) (sku_to_stock_level ref) (stores ref)\<rparr>)"

subsection \<open>Orders and order items\<close>

text \<open>The loop \<open>for i in range(num_orders)\<close>, as a count of iterations still to run.\<close>

fun order_objects :: "nat list \<Rightarrow> nat list \<Rightarrow> nat \<Rightarrow> rnd \<Rightarrow> error + (order_row list \<times> rnd)" where
  "order_objects customer_ids store_ids 0 r = Inr ([], r)"
| "order_objects customer_ids store_ids (Suc n) r =
     bind_result (random_choice customer_ids r) (\<lambda>(customer_id, r1).
     bind_result (random_choice store_ids r1) (\<lambda>(store_id, r2).
       case random_randint 0 730 r2 of (days, r3) \<Rightarrow>
         bind_result (order_objects customer_ids store_ids n r3) (\<lambda>(objs, r4).
           Inr (\<lparr>o_customer_id = customer_id, o_store_id = store_id, o_days_ago = days\<rparr> # objs, r4))))"

text \<open>One \<open>OrderItem(...)\<close> of the ORM generator: three draws, then the amounts.\<close>

definition order_item_object ::
  "nat \<Rightarrow> nat \<Rightarrow> (nat \<times> rat) list \<Rightarrow> rnd \<Rightarrow> error + (order_item_row \<times> rnd)" where
  "order_item_object order_id store_id product_list r =
     bind_result (random_choice product_list r) (\<lambda>((product_id, base_price), r1).
       case random_randint 1 10 r1 of (quantity, r2) \<Rightarrow>
         bind_result (random_choice [0, 0, 0, 5, 10, 15] r2) (\<lambda>(discount_percent, r3).
           (let unit_price = float_round base_price;
                discount_amount =
                  round2 (float_div (float_mul (float_mul unit_price (float_of_int quantity))
                                       (float_of_int discount_percent)) 100);
                total_amount = round2 (float_sub (float_mul unit_price (float_of_int quantity)) discount_amount)
            in Inr (\<lparr>oi_order_id = order_id, oi_store_id = store_id, oi_product_id = product_id,
                      oi_quantity = quantity, oi_unit_price = unit_price,
                      oi_discount_percent = discount_percent,
                      oi_discount_amount = discount_amount,
                      oi_total_amount = total_amount\<rparr>, r3))))"

fun order_items_of_order ::
  "nat \<Rightarrow> nat \<Rightarrow> (nat \<times> rat) list \<Rightarrow> nat \<Rightarrow> rnd \<Rightarrow> error + (order_item_row list \<times> rnd)" where
  "order_items_of_order order_id store_id product_list 0 r = Inr ([], r)"
| "order_items_of_order order_id store_id product_list (Suc n) r =
     bind_result (order_item_object order_id store_id product_list r) (\<lambda>(obj, r1).
     bind_result (order_items_of_order order_id store_id product_list n r1) (\<lambda>(objs, r2).
       Inr (obj # objs, r2)))"

text \<open>The loop \<open>for order_id in order_ids\<close>.\<close>

fun order_item_objects ::
  "nat list \<Rightarrow> nat list \<Rightarrow> (nat \<times> rat) list \<Rightarrow> rnd \<Rightarrow> error + (order_item_row list \<times> rnd)" where
  "order_item_objects [] store_ids product_list r = Inr ([], r)"
| "order_item_objects (order_id # rest) store_ids product_list r =
     bind_result (random_choice store_ids r) (\<lambda>(store_id, r1).
       case random_randint 1 5 r1 of (num_items, r2) \<Rightarrow>
         bind_result (order_items_of_order order_id store_id product_list (nat num_items) r2) (\<lambda>(objs, r3).
         bind_result (order_item_objects rest store_ids product_list r3) (\<lambda>(others, r4).
           Inr (objs @ others, r4))))"

text \<open>SQL \<open>LIMIT n\<close>: a negative \<open>n\<close> is no limit.\<close>

definition sql_limit :: "int \<Rightarrow> 'a list \<Rightarrow> 'a list" where
  "sql_limit n xs = (if n < 0 then xs else take (nat n) xs)"

text \<open>
  \<open>query(Order.order_id).order_by(Order.order_id.desc()).limit(num_orders)\<close>, reversed.
\<close>

definition last_order_ids :: "db \<Rightarrow> int \<Rightarrow> nat list" where
  "last_order_ids d num_orders = rev (sql_limit num_orders (rev (sort (ids (t_orders d)))))"

definition insert_orders_and_items :: "db \<Rightarrow> rnd \<Rightarrow> int \<Rightarrow> error + (db \<times> rnd)" where
  "insert_orders_and_items d r num_orders =
     (let customer_ids = ids (t_customers d);
          store_ids = ids (t_stores d);
          product_list = map (\<lambda>(product_id, p). (product_id, p_base_price p)) (t_products d)
      in if customer_ids = [] then Inl Exception
         else bind_result (order_objects customer_ids store_ids (nat num_orders) r) (\<lambda>(order_objs, r1).
           (let d1 = d\<lparr>t_orders := bulk_insert_objects (t_orders d) order_objs\<rparr> in
            bind_result (order_item_objects (last_order_ids d1 num_orders) store_ids product_list r1)
              (\<lambda>(item_objs, r2).
                 Inr (d1\<lparr>t_order_items := bulk_insert_objects (t_order_items d1) item_objs\<rparr>, r2)))))"

subsection \<open>The generation run\<close>

text \<open>
  \<open>main()\<close> without \<open>--show-stats\<close>: the old file is removed, the schema created, and the
  stages run in this order.
\<close>

definition main_orm :: "reference \<Rightarrow> rnd \<Rightarrow> int \<Rightarrow> int \<Rightarrow> error + (db \<times> rnd)" where
  "main_orm ref r num_customers num_orders =
     bind_result (insert_stores ref empty_db) (\<lambda>d1.
     bind_result (insert_categories ref d1) (\<lambda>d2.
     bind_result (insert_product_types ref d2) (\<lambda>d3.
     bind_result (insert_suppliers ref d3 r) (\<lambda>(d4, r1).
     bind_result (insert_products ref d4) (\<lambda>d5.
     bind_result (populate_product_embeddings ref d5) (\<lambda>d6.
     bind_result (insert_customers ref d6 r1 num_customers) (\<lambda>(d7, r2).
     bind_result (insert_inventory ref d7) (\<lambda>d8.
       insert_orders_and_items d8 r2 num_orders))))))))"


subsection \<open>Statistics\<close>



section \<open>The legacy generator\<close>

subsection \<open>Reference data\<close>

text \<open>
  \<open>product_data.json\<close>: \<open>main_categories\<close> maps a category to an object whose values are
  lists of product objects, or something else (the seasonal multipliers). A value that
  is not a list carries its truthiness; a list element that is not an object is
  \<open>NotDict\<close>. \<open>reference_data.json\<close>: the stores by name, and the year weights.
\<close>

record product_details =
  ld_name :: string
  ld_sku :: "string option"
  ld_price :: rat
  ld_description :: string
  ld_description_embedding :: "rat list option"

datatype json_item = Dict product_details | NotDict

datatype json_val = JList "json_item list" | NotList bool

record store_config_legacy =
  sl_customer_distribution_weight :: rat
  sl_rls_user_id :: "string option"

record reference_legacy =
  main_categories :: "(string \<times> (string \<times> json_val) list) list"
  stores_legacy :: "(string \<times> store_config_legacy) list"
  year_weights :: "(string \<times> rat) list"

subsection \<open>The database\<close>

record product_row_legacy =
  lp_sku :: string
  lp_product_name :: string
  lp_category_id :: nat
  lp_type_id :: nat
  lp_cost :: rat
  lp_base_price :: rat
  lp_product_description :: string

record order_row_legacy =
  lo_customer_id :: nat
  lo_store_id :: "nat option"
  lo_order_date :: "int \<times> int \<times> int"

record order_item_row_legacy =
  loi_order_id :: nat
  loi_store_id :: "nat option"
  loi_product_id :: nat
  loi_quantity :: int
  loi_unit_price :: rat
  loi_discount_percent :: int
  loi_discount_amount :: rat
  loi_total_amount :: rat

record db_legacy =
  l_stores :: "store_row table"
  l_customers :: "customer_row table"
  l_categories :: "string table"
  l_product_types :: "product_type_row table"
  l_products :: "product_row_legacy table"
  l_inventory :: "inventory_row list"
  l_orders :: "order_row_legacy table"
  l_order_items :: "order_item_row_legacy table"
  l_embeddings :: "embedding_row list"

definition empty_db_legacy :: db_legacy where
  "empty_db_legacy = \<lparr>l_stores = [], l_customers = [], l_categories = [], l_product_types = [],
     l_products = [], l_inventory = [], l_orders = [], l_order_items = [], l_embeddings = []\<rparr>"

subsection \<open>Stores and customers\<close>

text \<open>\<open>sub in s\<close> on strings.\<close>

fun contains :: "string \<Rightarrow> string \<Rightarrow> bool" where
  "contains sub [] = (sub = [])"
| "contains sub (c # cs) = (take (length sub) (c # cs) = sub \<or> contains sub cs)"

fun store_objects_legacy :: "(string \<times> store_config_legacy) list \<Rightarrow> error + store_row list" where
  "store_objects_legacy [] = Inr []"
| "store_objects_legacy ((store_name, store_config) # rest) =
     (case sl_rls_user_id store_config of
        None \<Rightarrow> Inl ValueError
      | Some rls_user_id \<Rightarrow>
          if rls_user_id = [] then Inl ValueError
          else bind_result (store_objects_legacy rest) (\<lambda>objs.
                 Inr (\<lparr>s_store_name = store_name, s_rls_user_id = rls_user_id,
                        s_is_online = contains ''online'' (lower store_name)\<rparr> # objs)))"

definition insert_stores_legacy :: "reference_legacy \<Rightarrow> db_legacy \<Rightarrow> error + db_legacy" where
  "insert_stores_legacy ref d =
     bind_result (store_objects_legacy (stores_legacy ref)) (\<lambda>objs.
       Inr (d\<lparr>l_stores := bulk_insert_objects (l_stores d) objs\<rparr>))"

definition weighted_store_choice_legacy :: "reference_legacy \<Rightarrow> rnd \<Rightarrow> error + (string \<times> rnd)" where
  "weighted_store_choice_legacy ref r =
     (let store_names = map fst (stores_legacy ref);
          weights = map (\<lambda>store. sl_customer_distribution_weight (the (map_of (stores_legacy ref) store))) store_names
      in random_choices store_names weights r)"

text \<open>
  The loop \<open>for store_id, store_name in store_rows: if store_name == preferred: ...; break\<close>,
  starting from \<open>None\<close>.
\<close>

definition find_store_id :: "store_row table \<Rightarrow> string \<Rightarrow> nat option" where
  "find_store_id store_rows preferred =
     map_option fst (find (\<lambda>(store_id, s). s_store_name s = preferred) store_rows)"

fun customer_objects_legacy ::
  "reference_legacy \<Rightarrow> store_row table \<Rightarrow> int list \<Rightarrow> rnd \<Rightarrow> error + (customer_row list \<times> rnd)" where
  "customer_objects_legacy ref store_rows [] r = Inr ([], r)"
| "customer_objects_legacy ref store_rows (i # rest) r =
     (case fake_name r of (first_raw, r1) \<Rightarrow>
      case fake_name r1 of (last_raw, r2) \<Rightarrow>
      case generate_phone_number r2 of (phone, r3) \<Rightarrow>
        bind_result (weighted_store_choice_legacy ref r3) (\<lambda>(preferred_store_name, r4).
        bind_result (customer_objects_legacy ref store_rows rest r4) (\<lambda>(objs, r5).
          Inr (\<lparr>c_first_name = replace apostrophe [apostrophe, apostrophe] first_raw,
                 c_last_name = replace apostrophe [apostrophe, apostrophe] last_raw,
                 c_email = email_of (replace apostrophe [apostrophe, apostrophe] first_raw)
                                    (replace apostrophe [apostrophe, apostrophe] last_raw) i,
                 c_phone = phone,
                 c_primary_store_id = find_store_id store_rows preferred_store_name\<rparr>
               # objs, r5))))"

definition insert_customers_legacy ::
  "reference_legacy \<Rightarrow> db_legacy \<Rightarrow> rnd \<Rightarrow> int \<Rightarrow> error + (db_legacy \<times> rnd)" where
  "insert_customers_legacy ref d r num_customers =
     bind_result (customer_objects_legacy ref (l_stores d) [1 .. num_customers] r) (\<lambda>(objs, r').
       Inr (d\<lparr>l_customers := bulk_insert_objects (l_customers d) objs\<rparr>, r'))"

subsection \<open>Categories, product types, products\<close>

definition insert_categories_legacy :: "reference_legacy \<Rightarrow> db_legacy \<Rightarrow> error + db_legacy" where
  "insert_categories_legacy ref d =
     Inr (d\<lparr>l_categories := bulk_insert_objects (l_categories d) (map fst (main_categories ref))\<rparr>)"

definition category_mapping_legacy :: "db_legacy \<Rightarrow> string \<Rightarrow> nat option" where
  "category_mapping_legacy d =
     dict_of (map (\<lambda>(category_id, category_name). (category_name, category_id)) (l_categories d))"

definition seasonal_key :: string where
  "seasonal_key = ''washington_seasonal_multipliers''"

fun product_types_data ::
  "(string \<Rightarrow> nat option) \<Rightarrow> (string \<times> (string \<times> json_val) list) list \<Rightarrow> error + product_type_row list" where
  "product_types_data cm [] = Inr []"
| "product_types_data cm ((main_category, subcategories) # rest) =
     (case cm main_category of
        None \<Rightarrow> Inl KeyError
      | Some category_id \<Rightarrow>
          bind_result (product_types_data cm rest) (\<lambda>objs.
            Inr (map (\<lambda>subcategory. \<lparr>pt_category_id = category_id, pt_type_name = subcategory\<rparr>)
                     (filter (\<lambda>subcategory. subcategory \<noteq> seasonal_key) (map fst subcategories))
                 @ objs)))"

definition insert_product_types_legacy :: "reference_legacy \<Rightarrow> db_legacy \<Rightarrow> error + db_legacy" where
  "insert_product_types_legacy ref d =
     bind_result (product_types_data (category_mapping_legacy d) (main_categories ref)) (\<lambda>objs.
       Inr (d\<lparr>l_product_types := bulk_insert_objects (l_product_types d) objs\<rparr>))"

definition type_mapping_legacy :: "db_legacy \<Rightarrow> nat \<times> string \<Rightarrow> nat option" where
  "type_mapping_legacy d =
     dict_of (map (\<lambda>(type_id, pt). ((pt_category_id pt, pt_type_name pt), type_id)) (l_product_types d))"

text \<open>\<open>f"SKU{n:06d}"\<close>\<close>

definition default_sku :: "nat \<Rightarrow> string" where
  "default_sku n = ''SKU'' @ replicate (6 - length (str_nat n)) (CHR ''0'') @ str_nat n"

text \<open>
  The loop over one product list; \<open>acc\<close> is \<open>products_data\<close> so far (its length names
  the default SKU). The cost is the catalog price and the base price is derived from it.
\<close>

fun products_of_list ::
  "nat \<Rightarrow> nat \<Rightarrow> product_row_legacy list \<Rightarrow> json_item list \<Rightarrow> error + product_row_legacy list" where
  "products_of_list category_id type_id acc [] = Inr acc"
| "products_of_list category_id type_id acc (NotDict # rest) = Inl TypeError"
| "products_of_list category_id type_id acc (Dict product_details # rest) =
     (let product_name = ld_name product_details;
          sku = (case ld_sku product_details of
                   None \<Rightarrow> default_sku (length acc + 1) | Some k \<Rightarrow> k);
          cost = float_round (ld_price product_details);
          base_price = round2 (float_div cost (float_round (67 / 100)));
          description = ld_description product_details
      in products_of_list category_id type_id
           (acc @ [\<lparr>lp_sku = sku, lp_product_name = product_name, lp_category_id = category_id,
                    lp_type_id = type_id, lp_cost = cost, lp_base_price = base_price,
                    lp_product_description = description\<rparr>]) rest)"

text \<open>The loop over the subcategories of one category.\<close>

fun products_of_subcategories ::
  "(nat \<times> string \<Rightarrow> nat option) \<Rightarrow> nat \<Rightarrow> product_row_legacy list \<Rightarrow> (string \<times> json_val) list
     \<Rightarrow> error + product_row_legacy list" where
  "products_of_subcategories tm category_id acc [] = Inr acc"
| "products_of_subcategories tm category_id acc ((subcategory, product_list) # rest) =
     (if subcategory = seasonal_key \<or> product_list = JList [] \<or> product_list = NotList False
      then products_of_subcategories tm category_id acc rest
      else case tm (category_id, subcategory) of
        None \<Rightarrow> products_of_subcategories tm category_id acc rest
      | Some type_id \<Rightarrow>
          if type_id = 0 then products_of_subcategories tm category_id acc rest
          else (case product_list of
                  NotList b \<Rightarrow> Inl TypeError
                | JList items \<Rightarrow>
                    bind_result (products_of_list category_id type_id acc items) (\<lambda>acc'.
                      products_of_subcategories tm category_id acc' rest)))"

fun products_data ::
  "(string \<Rightarrow> nat option) \<Rightarrow> (nat \<times> string \<Rightarrow> nat option) \<Rightarrow> product_row_legacy list
     \<Rightarrow> (string \<times> (string \<times> json_val) list) list \<Rightarrow> error + product_row_legacy list" where
  "products_data cm tm acc [] = Inr acc"
| "products_data cm tm acc ((main_category, subcategories) # rest) =
     (case cm main_category of
        None \<Rightarrow> Inl KeyError
      | Some category_id \<Rightarrow>
          bind_result (products_of_subcategories tm category_id acc subcategories) (\<lambda>acc'.
            products_data cm tm acc' rest))"

definition insert_products_legacy :: "reference_legacy \<Rightarrow> db_legacy \<Rightarrow> error + db_legacy" where
  "insert_products_legacy ref d =
     bind_result (products_data (category_mapping_legacy d) (type_mapping_legacy d) [] (main_categories ref))
       (\<lambda>objs. Inr (d\<lparr>l_products := bulk_insert_objects (l_products d) objs\<rparr>))"


subsection \<open>Description embeddings\<close>

text \<open>The entries of one product list that carry a truthy SKU and a truthy embedding.\<close>

fun embeddings_of_items :: "json_item list \<Rightarrow> (string \<times> rat list) list" where
  "embeddings_of_items [] = []"
| "embeddings_of_items (NotDict # rest) = embeddings_of_items rest"
| "embeddings_of_items (Dict product # rest) =
     (case ld_sku product of
        None \<Rightarrow> embeddings_of_items rest
      | Some sku \<Rightarrow>
          if sku \<noteq> [] \<and> truthy_vector (ld_description_embedding product)
          then (sku, the (ld_description_embedding product)) # embeddings_of_items rest
          else embeddings_of_items rest)"

definition products_with_embeddings :: "reference_legacy \<Rightarrow> (string \<times> rat list) list" where
  "products_with_embeddings ref =
     concat (map (\<lambda>(category, category_data).
       concat (map (\<lambda>(product_type, products).
         (case products of NotList b \<Rightarrow> [] | JList items \<Rightarrow> embeddings_of_items items))
         category_data))
       (main_categories ref))"

text \<open>\<open>SELECT product_id FROM products WHERE sku = ?\<close>, \<open>fetchone()\<close>\<close>

definition select_product_id :: "product_row_legacy table \<Rightarrow> string \<Rightarrow> nat option" where
  "select_product_id products sku = map_option fst (find (\<lambda>(product_id, p). lp_sku p = sku) products)"

text \<open>
  The insertion loop. \<open>product_id\<close> is the primary key of the embeddings table: a second
  row for the same product raises \<open>IntegrityError\<close>. An entry whose SKU is not in the
  products table is skipped.
\<close>

fun insert_embeddings ::
  "product_row_legacy table \<Rightarrow> embedding_row list \<Rightarrow> (string \<times> rat list) list \<Rightarrow> error + embedding_row list" where
  "insert_embeddings products tbl [] = Inr tbl"
| "insert_embeddings products tbl ((sku, embedding) # rest) =
     (case select_product_id products sku of
        None \<Rightarrow> insert_embeddings products tbl rest
      | Some product_id \<Rightarrow>
          if product_id \<in> set (map e_product_id tbl) then Inl IntegrityError
          else insert_embeddings products
                 (tbl @ [\<lparr>e_product_id = product_id, e_embedding = embedding\<rparr>]) rest)"

definition populate_product_description_embeddings ::
  "reference_legacy \<Rightarrow> db_legacy \<Rightarrow> bool \<Rightarrow> error + db_legacy" where
  "populate_product_description_embeddings ref d clear_existing =
     (let d1 = (if clear_existing then d\<lparr>l_embeddings := []\<rparr> else d) in
      bind_result (insert_embeddings (l_products d1) (l_embeddings d1) (products_with_embeddings ref))
        (\<lambda>tbl. Inr (d1\<lparr>l_embeddings := tbl\<rparr>)))"

subsection \<open>Year weights and inventory\<close>

definition get_yearly_weight :: "reference_legacy \<Rightarrow> int \<Rightarrow> rat" where
  "get_yearly_weight ref year = get_default (map_of (year_weights ref)) (str_int year) 1"

definition weighted_year_choice :: "reference_legacy \<Rightarrow> rnd \<Rightarrow> error + (int \<times> rnd)" where
  "weighted_year_choice ref r =
     (let years = [2020, 2021, 2022, 2023, 2024, 2025, 2026] in
      random_choices years (map (get_yearly_weight ref) years) r)"

fun inventory_of_store :: "nat \<Rightarrow> nat list \<Rightarrow> rnd \<Rightarrow> inventory_row list \<times> rnd" where
  "inventory_of_store store_id [] r = ([], r)"
| "inventory_of_store store_id (product_id # rest) r =
     (case random_randint 10 200 r of (stock_level, r1) \<Rightarrow>
      case inventory_of_store store_id rest r1 of (rows, r2) \<Rightarrow>
        (\<lparr>i_store_id = store_id, i_product_id = product_id, i_stock_level = stock_level\<rparr> # rows, r2))"

fun inventory_data :: "nat list \<Rightarrow> nat list \<Rightarrow> rnd \<Rightarrow> inventory_row list \<times> rnd" where
  "inventory_data [] product_ids r = ([], r)"
| "inventory_data (store_id # rest) product_ids r =
     (case inventory_of_store store_id product_ids r of (rows, r1) \<Rightarrow>
      case inventory_data rest product_ids r1 of (others, r2) \<Rightarrow> (rows @ others, r2))"

definition insert_inventory_legacy :: "db_legacy \<Rightarrow> rnd \<Rightarrow> error + (db_legacy \<times> rnd)" where
  "insert_inventory_legacy d r =
     (case inventory_data (ids (l_stores d)) (ids (l_products d)) r of
        (rows, r') \<Rightarrow> Inr (d\<lparr>l_inventory := l_inventory d @ rows\<rparr>, r'))"

subsection \<open>Orders and order items\<close>

text \<open>
  The discount of one item: with probability 0.15 a percentage from a fixed list and the
  amount computed from it, otherwise both 0.
\<close>

definition discount_legacy :: "rat \<Rightarrow> int \<Rightarrow> rnd \<Rightarrow> error + ((int \<times> rat) \<times> rnd)" where
  "discount_legacy unit_price quantity r =
     (case random_random r of (u, r1) \<Rightarrow>
        if u < 15 / 100
        then bind_result (random_choice [5, 10, 15, 20, 25] r1) (\<lambda>(discount_percent, r2).
               Inr ((discount_percent,
                     float_div (float_mul (float_mul unit_price (float_of_int quantity))
                                  (float_of_int discount_percent)) 100), r2))
        else Inr ((0, 0), r1))"

text \<open>One order item of the legacy generator; no amount is rounded to cents.\<close>

definition order_item_legacy ::
  "nat \<Rightarrow> nat option \<Rightarrow> (nat \<Rightarrow> rat option) \<Rightarrow> nat list \<Rightarrow> rnd \<Rightarrow> error + (order_item_row_legacy \<times> rnd)" where
  "order_item_legacy order_id store_id product_prices product_ids r =
     bind_result (random_choice product_ids r) (\<lambda>(product_id, r1).
       case product_prices product_id of
         None \<Rightarrow> Inl KeyError
       | Some base_price \<Rightarrow>
           bind_result (random_choices [1, 2, 3, 4, 5] [60, 25, 10, 3, 2] r1) (\<lambda>(quantity, r2).
             case random_uniform (8 / 10) (12 / 10) r2 of (factor, r3) \<Rightarrow>
               (let unit_price = float_mul base_price factor in
                bind_result (discount_legacy unit_price quantity r3)
                  (\<lambda>((discount_percent, discount_amount), r4).
                     Inr (\<lparr>loi_order_id = order_id, loi_store_id = store_id, loi_product_id = product_id,
                            loi_quantity = quantity, loi_unit_price = unit_price,
                            loi_discount_percent = discount_percent,
                            loi_discount_amount = discount_amount,
                            loi_total_amount =
                              float_sub (float_mul unit_price (float_of_int quantity)) discount_amount\<rparr>,
                          r4)))))"

fun order_items_legacy ::
  "nat \<Rightarrow> nat option \<Rightarrow> (nat \<Rightarrow> rat option) \<Rightarrow> nat list \<Rightarrow> nat \<Rightarrow> rnd
     \<Rightarrow> error + (order_item_row_legacy list \<times> rnd)" where
  "order_items_legacy order_id store_id product_prices product_ids 0 r = Inr ([], r)"
| "order_items_legacy order_id store_id product_prices product_ids (Suc n) r =
     bind_result (order_item_legacy order_id store_id product_prices product_ids r) (\<lambda>(obj, r1).
     bind_result (order_items_legacy order_id store_id product_prices product_ids n r1) (\<lambda>(objs, r2).
       Inr (obj # objs, r2)))"

text \<open>The body of the loop \<open>for _ in range(num_orders)\<close>: one order and its items.\<close>

definition one_order_legacy ::
  "reference_legacy \<Rightarrow> nat \<Rightarrow> nat \<Rightarrow> store_row table \<Rightarrow> (nat \<Rightarrow> rat option) \<Rightarrow> nat list \<Rightarrow> rnd
     \<Rightarrow> error + ((order_row_legacy \<times> order_item_row_legacy list) \<times> rnd)" where
  "one_order_legacy ref customer_id order_id stores_list product_prices product_ids r =
     bind_result (weighted_store_choice_legacy ref r) (\<lambda>(preferred_store, r1).
     bind_result (weighted_year_choice ref r1) (\<lambda>(year, r2).
       case random_randint 1 12 r2 of (month, r3) \<Rightarrow>
       case random_randint 1 28 r3 of (day, r4) \<Rightarrow>
         bind_result (random_choices [1, 2, 3, 4, 5] [40, 30, 15, 10, 5] r4) (\<lambda>(num_items, r5).
         bind_result (order_items_legacy order_id (find_store_id stores_list preferred_store)
                        product_prices product_ids (nat num_items) r5) (\<lambda>(items, r6).
           Inr ((\<lparr>lo_customer_id = customer_id,
                   lo_store_id = find_store_id stores_list preferred_store,
                   lo_order_date = (year, month, day)\<rparr>, items), r6)))))"

text \<open>
  The orders of one customer; \<open>order_id\<close> is the running counter of the source, and the
  result carries its value after the loop.
\<close>

fun orders_of_customer_legacy ::
  "reference_legacy \<Rightarrow> nat \<Rightarrow> nat \<Rightarrow> store_row table \<Rightarrow> (nat \<Rightarrow> rat option) \<Rightarrow> nat list \<Rightarrow> nat \<Rightarrow> rnd
     \<Rightarrow> error + ((order_row_legacy list \<times> order_item_row_legacy list \<times> nat) \<times> rnd)" where
  "orders_of_customer_legacy ref customer_id order_id stores_list product_prices product_ids 0 r =
     Inr (([], [], order_id), r)"
| "orders_of_customer_legacy ref customer_id order_id stores_list product_prices product_ids (Suc n) r =
     bind_result (one_order_legacy ref customer_id order_id stores_list product_prices product_ids r)
       (\<lambda>((order, items), r1).
     bind_result (orders_of_customer_legacy ref customer_id (order_id + 1) stores_list
                    product_prices product_ids n r1)
       (\<lambda>((orders, more_items, next_order_id), r2).
          Inr ((order # orders, items @ more_items, next_order_id), r2)))"

text \<open>The loop \<open>for customer_id in range(1, num_customers + 1)\<close>.\<close>

fun orders_data_legacy ::
  "reference_legacy \<Rightarrow> int list \<Rightarrow> nat \<Rightarrow> store_row table \<Rightarrow> (nat \<Rightarrow> rat option) \<Rightarrow> nat list \<Rightarrow> rnd
     \<Rightarrow> error + ((order_row_legacy list \<times> order_item_row_legacy list \<times> nat) \<times> rnd)" where
  "orders_data_legacy ref [] order_id stores_list product_prices product_ids r =
     Inr (([], [], order_id), r)"
| "orders_data_legacy ref (customer_id # rest) order_id stores_list product_prices product_ids r =
     bind_result (random_choices [0, 1, 2, 3, 4, 5] [20, 40, 20, 10, 7, 3] r) (\<lambda>(num_orders, r1).
     bind_result (orders_of_customer_legacy ref (nat customer_id) order_id stores_list
                    product_prices product_ids (nat num_orders) r1)
       (\<lambda>((orders, items, next_order_id), r2).
     bind_result (orders_data_legacy ref rest next_order_id stores_list product_prices product_ids r2)
       (\<lambda>((more_orders, more_items, last_order_id), r3).
          Inr ((orders @ more_orders, items @ more_items, last_order_id), r3))))"

text \<open>\<open>{row[0]: row[1] for row in cursor.fetchall()}\<close> over \<open>product_id, base_price\<close>\<close>

definition product_prices_legacy :: "db_legacy \<Rightarrow> nat \<Rightarrow> rat option" where
  "product_prices_legacy d = dict_of (map (\<lambda>(product_id, p). (product_id, lp_base_price p)) (l_products d))"

text \<open>
  \<open>insert_orders\<close>: the counter starts at 1. The source inserts in batches of a thousand
  customers; the rows reach the tables in the order generated, so a run that raises
  nowhere inserts them all in that order. The columns \<open>orders.store_id\<close> and
  \<open>order_items.store_id\<close> are \<open>NOT NULL\<close>: a row whose store lookup found nothing is
  rejected with \<open>IntegrityError\<close>. The keys of the price dict are the product ids
  (primary keys, distinct) in table order.
\<close>

definition insert_orders_legacy ::
  "reference_legacy \<Rightarrow> db_legacy \<Rightarrow> rnd \<Rightarrow> int \<Rightarrow> error + (db_legacy \<times> rnd)" where
  "insert_orders_legacy ref d r num_customers =
     bind_result (orders_data_legacy ref [1 .. num_customers] 1 (l_stores d)
                    (product_prices_legacy d) (ids (l_products d)) r)
       (\<lambda>((orders_data, order_items_data, last_order_id), r').
          if list_ex (\<lambda>order. lo_store_id order = None) orders_data
             \<or> list_ex (\<lambda>item. loi_store_id item = None) order_items_data
          then Inl IntegrityError
          else Inr (d\<lparr>l_orders := bulk_insert_objects (l_orders d) orders_data,
                      l_order_items := bulk_insert_objects (l_order_items d) order_items_data\<rparr>, r'))"

subsection \<open>Statistics\<close>

record stats_legacy =
  sl_customers :: nat
  sl_products :: nat
  sl_embeddings :: nat
  sl_orders :: nat
  sl_order_items :: nat
  sl_total_revenue :: rat
  sl_ratios :: "(rat \<times> rat \<times> rat) option"

text \<open>
  \<open>show_database_stats\<close>: the counts and the revenue (\<open>SUM(...) or 0\<close>) are logged; when
  there are orders, three ratios are computed in this order: revenue by orders, orders
  by customers, order items by orders. A division by zero raises.
\<close>

definition show_database_stats :: "db_legacy \<Rightarrow> error + stats_legacy" where
  "show_database_stats d =
     (let customers = length (l_customers d);
          products = length (l_products d);
          orders = length (l_orders d);
          order_items = length (l_order_items d);
          embeddings = length (l_embeddings d);
          total_revenue = sum_list (map (\<lambda>(order_item_id, item). loi_total_amount item) (l_order_items d));
          counts = \<lparr>sl_customers = customers, sl_products = products, sl_embeddings = embeddings,
                    sl_orders = orders, sl_order_items = order_items,
                    sl_total_revenue = total_revenue, sl_ratios = None\<rparr>
      in if orders > 0 then
           (if customers = 0 then Inl ZeroDivisionError
            else Inr (counts\<lparr>sl_ratios := Some (total_revenue / of_nat orders,
                                               of_nat orders / of_nat customers,
                                               of_nat order_items / of_nat orders)\<rparr>))
         else Inr counts)"

subsection \<open>The generation run\<close>

definition generate_sqlite_database ::
  "reference_legacy \<Rightarrow> rnd \<Rightarrow> int \<Rightarrow> error + (db_legacy \<times> rnd)" where
  "generate_sqlite_database ref r num_customers =
     bind_result (insert_stores_legacy ref empty_db_legacy) (\<lambda>d1.
     bind_result (insert_categories_legacy ref d1) (\<lambda>d2.
     bind_result (insert_product_types_legacy ref d2) (\<lambda>d3.
     bind_result (insert_customers_legacy ref d3 r num_customers) (\<lambda>(d4, r1).
     bind_result (insert_products_legacy ref d4) (\<lambda>d5.
     bind_result (populate_product_description_embeddings ref d5 True) (\<lambda>d6.
     bind_result (insert_inventory_legacy d6 r1) (\<lambda>(d7, r2).
     bind_result (insert_orders_legacy ref d7 r2 num_customers) (\<lambda>(d8, r3).
     bind_result (show_database_stats d8) (\<lambda>stats. Inr (d8, r3))))))))))"

section \<open>Notions used in the statements and proofs\<close>

definition digits_val :: "string \<Rightarrow> nat" where
  "digits_val s = foldl (\<lambda>a c. 10 * a + (of_char c - 48)) 0 s"

definition is_digit :: "char \<Rightarrow> bool" where
  "is_digit c = (48 \<le> (of_char c :: nat) \<and> (of_char c :: nat) \<le> 57)"

definition numbered_emails :: "customer_row list \<Rightarrow> int list \<Rightarrow> bool" where
  "numbered_emails objs idxs = list_all2 (\<lambda>c i. \<exists>f l. c_email c = email_of f l i) objs idxs"



text \<open>
  A product row of the ORM generator made from a catalog entry: the base price is the
  entry's price as a float, the cost is \<open>round(base_price * 0.67, 2)\<close> in float
  arithmetic, the supplier id is the entry's.
\<close>

definition priced_from :: "product_entry \<Rightarrow> product_row \<Rightarrow> bool" where
  "priced_from product row =
     (p_sku row = pd_sku product
      \<and> p_base_price row = float_round (pd_price product)
      \<and> p_cost row = round2 (float_mul (float_round (pd_price product)) (float_round (67 / 100)))
      \<and> p_supplier_id row = pd_supplier_id product)"

text \<open>The product objects of the legacy catalog.\<close>

fun dicts_of :: "json_item list \<Rightarrow> product_details list" where
  "dicts_of [] = []"
| "dicts_of (NotDict # rest) = dicts_of rest"
| "dicts_of (Dict product # rest) = product # dicts_of rest"

definition dicts_of_val :: "json_val \<Rightarrow> product_details list" where
  "dicts_of_val v = (case v of JList items \<Rightarrow> dicts_of items | NotList b \<Rightarrow> [])"

definition subcategory_entries :: "(string \<times> json_val) list \<Rightarrow> product_details list" where
  "subcategory_entries subcategories =
     concat (map (\<lambda>(subcategory, product_list). dicts_of_val product_list) subcategories)"

definition catalog_entries :: "reference_legacy \<Rightarrow> product_details list" where
  "catalog_entries ref =
     concat (map (\<lambda>(category, subcategories).
       concat (map (\<lambda>(subcategory, product_list). dicts_of_val product_list) subcategories))
       (main_categories ref))"

text \<open>
  A product row of the legacy generator made from a catalog entry: the cost is the
  entry's price as a float, and the base price is \<open>round(cost / 0.67, 2)\<close> in float
  arithmetic.
\<close>

definition priced_from_legacy :: "product_details \<Rightarrow> product_row_legacy \<Rightarrow> bool" where
  "priced_from_legacy product row =
     (lp_product_name row = ld_name product
      \<and> lp_cost row = float_round (ld_price product)
      \<and> lp_base_price row = round2 (float_div (float_round (ld_price product)) (float_round (67 / 100))))"

text \<open>
  The amounts of an ORM order item: \<open>round((unit_price * quantity * discount_percent) /
  100, 2)\<close> and \<open>round((unit_price * quantity) - discount_amount, 2)\<close>, in float arithmetic.
  The amounts of a legacy order item: the same two expressions without \<open>round\<close>.
\<close>

definition rounded_item :: "order_item_row \<Rightarrow> bool" where
  "rounded_item item =
     (oi_discount_amount item =
        round2 (float_div (float_mul (float_mul (oi_unit_price item) (float_of_int (oi_quantity item)))
                             (float_of_int (oi_discount_percent item))) 100)
      \<and> oi_total_amount item =
        round2 (float_sub (float_mul (oi_unit_price item) (float_of_int (oi_quantity item)))
                  (oi_discount_amount item)))"

definition unrounded_item :: "order_item_row_legacy \<Rightarrow> bool" where
  "unrounded_item item =
     (loi_discount_amount item =
        float_div (float_mul (float_mul (loi_unit_price item) (float_of_int (loi_quantity item)))
                     (float_of_int (loi_discount_percent item))) 100
      \<and> loi_total_amount item =
        float_sub (float_mul (loi_unit_price item) (float_of_int (loi_quantity item)))
          (loi_discount_amount item))"

text \<open>The weights \<open>weighted_store_choice\<close> hands to \<open>random.choices\<close>.\<close>

definition store_weights :: "reference \<Rightarrow> rat list" where
  "store_weights ref =
     map (\<lambda>store. sc_customer_distribution_weight (the (map_of (stores ref) store))) (map fst (stores ref))"

definition store_weights_legacy :: "reference_legacy \<Rightarrow> rat list" where
  "store_weights_legacy ref =
     map (\<lambda>store. sl_customer_distribution_weight (the (map_of (stores_legacy ref) store)))
       (map fst (stores_legacy ref))"

text \<open>The store names of the reference data, and of the stores table.\<close>

definition reference_store_names :: "reference \<Rightarrow> string set" where
  "reference_store_names ref = set (map (\<lambda>(store_id, store_config). sc_store_name store_config) (stores ref))"

definition db_store_names :: "store_row table \<Rightarrow> string set" where
  "db_store_names t = set (map (\<lambda>(store_id, s). s_store_name s) t)"

text \<open>
  The primary store of a customer of the ORM stage: the id of a stores row, the one a
  store name of the reference data maps to, or else the first. Of the legacy stage: the
  result of the lookup loop for a store name of the reference data.
\<close>

definition primary_store_of :: "reference \<Rightarrow> db \<Rightarrow> customer_row \<Rightarrow> bool" where
  "primary_store_of ref d c =
     (\<exists>name\<in>reference_store_names ref. \<exists>sid\<in>set (ids (t_stores d)).
        c_primary_store_id c = Some sid
        \<and> sid = get_default (store_name_to_id d) name (fst (hd (t_stores d))))"

definition primary_store_of_legacy :: "reference_legacy \<Rightarrow> db_legacy \<Rightarrow> customer_row \<Rightarrow> bool" where
  "primary_store_of_legacy ref d c =
     (\<exists>name\<in>set (map fst (stores_legacy ref)). c_primary_store_id c = find_store_id (l_stores d) name)"







text \<open>The keys of a table are pairwise distinct and none is 0.\<close>

definition keyed :: "'r table \<Rightarrow> bool" where
  "keyed t = (distinct (ids t) \<and> 0 \<notin> set (ids t))"

section \<open>Sample inputs\<close>

definition sample_ref :: reference where
  "sample_ref =
     \<lparr>stores =
        [(''1'', \<lparr>sc_store_name = ''Zava Seattle'', sc_is_online = False, sc_rls_user_id = ''u-1'',
                  sc_customer_distribution_weight = 7 / 10, sc_product_skus = Some [''SKU-A'', ''SKU-B'']\<rparr>),
         (''2'', \<lparr>sc_store_name = ''Zava Online'', sc_is_online = True, sc_rls_user_id = ''u-2'',
                  sc_customer_distribution_weight = 3 / 10, sc_product_skus = Some [''SKU-B'']\<rparr>)],
      products_list =
        [\<lparr>pd_sku = ''SKU-A'', pd_name = ''Hammer'', pd_category = ''HAND TOOLS'',
          pd_subcategory = ''HAMMERS'', pd_price = 999 / 100, pd_supplier_id = 1,
          pd_description = ''Claw hammer'', pd_stock_level = Some 7,
          pd_minimum_order_quantity = None, pd_image_embedding = None,
          pd_description_embedding = Some [1 / 2]\<rparr>,
         \<lparr>pd_sku = ''SKU-B'', pd_name = ''Drill'', pd_category = ''POWER TOOLS'',
          pd_subcategory = ''DRILLS'', pd_price = 10, pd_supplier_id = 1,
          pd_description = ''Cordless drill'', pd_stock_level = None,
          pd_minimum_order_quantity = Some 5, pd_image_embedding = Some [1],
          pd_description_embedding = None\<rparr>],
      supplier_data =
        [(1, \<lparr>su_supplier_id = 1, su_supplier_name = ''Acme'', su_lead_time_days = 5, su_rating = 4\<rparr>)]\<rparr>"

definition sample_rnd :: rnd where
  "sample_rnd = \<lparr>raw = (\<lambda>i. of_nat i / 7), pos = 0,
                  fake = (\<lambda>i. if even i then ''Ada'' else ''Lovelace''), fpos = 0\<rparr>"

definition other_rnd :: rnd where
  "other_rnd = \<lparr>raw = (\<lambda>i. of_nat i / 3), pos = 0, fake = (\<lambda>i. ''Bo''), fpos = 0\<rparr>"

text \<open>A database whose only store is not a store of \<open>sample_ref\<close>.\<close>

definition foreign_store_db :: db where
  "foreign_store_db = empty_db\<lparr>t_stores :=
     [(1, \<lparr>s_store_name = ''Elsewhere'', s_rls_user_id = ''u-9'', s_is_online = False\<rparr>)]\<rparr>"

definition sample_ref_legacy :: reference_legacy where
  "sample_ref_legacy =
     \<lparr>main_categories =
        [(''HAND TOOLS'',
          [(''HAMMERS'',
            JList [Dict \<lparr>ld_name = ''Hammer'', ld_sku = Some ''SKU-A'', ld_price = 999 / 100,
                          ld_description = ''Claw hammer'',
                          ld_description_embedding = Some [1 / 2]\<rparr>]),
           (''washington_seasonal_multipliers'', NotList True)])],
      stores_legacy =
        [(''Zava Seattle'', \<lparr>sl_customer_distribution_weight = 7 / 10, sl_rls_user_id = Some ''u-1''\<rparr>),
         (''Zava Online'', \<lparr>sl_customer_distribution_weight = 3 / 10, sl_rls_user_id = Some ''u-2''\<rparr>)],
      year_weights = [(''2024'', 2)]\<rparr>"

text \<open>The databases the products stages find when the runs on the samples reach them.\<close>

definition sample_catalog_db :: db where
  "sample_catalog_db =
     (case bind_result (insert_categories sample_ref empty_db) (insert_product_types sample_ref) of
        Inr d \<Rightarrow> d | Inl e \<Rightarrow> empty_db)"

definition sample_catalog_db_legacy :: db_legacy where
  "sample_catalog_db_legacy =
     (case bind_result (insert_categories_legacy sample_ref_legacy empty_db_legacy)
             (insert_product_types_legacy sample_ref_legacy) of
        Inr d \<Rightarrow> d | Inl e \<Rightarrow> empty_db_legacy)"

text \<open>
  A legacy database with two stores and one product, and a source of draws that gives one
  order of one item at the price factor \<open>0.8 + 0.4 * 0.123\<close>.
\<close>

definition sample_orders_db_legacy :: db_legacy where
  "sample_orders_db_legacy = empty_db_legacy
     \<lparr>l_stores :=
        [(1, \<lparr>s_store_name = ''Zava Seattle'', s_rls_user_id = ''u-1'', s_is_online = False\<rparr>),
         (2, \<lparr>s_store_name = ''Zava Online'', s_rls_user_id = ''u-2'', s_is_online = True\<rparr>)],
      l_products :=
        [(1, \<lparr>lp_sku = ''SKU-A'', lp_product_name = ''Hammer'', lp_category_id = 1, lp_type_id = 1,
               lp_cost = float_round (67 / 10), lp_base_price = 10, lp_product_description = ''Claw hammer''\<rparr>)]\<rparr>"

definition jitter_rnd :: rnd where
  "jitter_rnd = \<lparr>raw = (\<lambda>i. if i = 8 then 123 / 1000 else if i = 5 then 1 / 5 else 1 / 2), pos = 0,
                  fake = (\<lambda>i. ''Bo''), fpos = 0\<rparr>"

text \<open>An ORM database with one store, one product and one customer.\<close>

definition sample_orders_db :: db where
  "sample_orders_db = empty_db
     \<lparr>t_stores := [(1, \<lparr>s_store_name = ''Zava Seattle'', s_rls_user_id = ''u-1'', s_is_online = False\<rparr>)],
      t_products :=
        [(1, \<lparr>p_sku = ''SKU-A'', p_product_name = ''Hammer'', p_category_id = 1, p_type_id = 1,
               p_supplier_id = 1, p_cost = float_round (669 / 100), p_base_price = float_round (999 / 100),
               p_gross_margin_percent = 33, p_product_description = ''Claw hammer'',
               p_procurement_lead_time_days = 5, p_minimum_order_quantity = 10,
               p_discontinued = False\<rparr>)],
      t_customers :=
        [(1, \<lparr>c_first_name = ''Ada'', c_last_name = ''Lovelace'',
               c_email = ''ada.lovelace.1@example.com'', c_phone = ''(555) 555-5555'',
               c_primary_store_id = Some 1\<rparr>)]\<rparr>"

text \<open>The order item of Scenario C, as the ORM stage computes its amounts.\<close>

definition scenario_item :: order_item_row where
  "scenario_item =
     \<lparr>oi_order_id = 1, oi_store_id = 1, oi_product_id = 1, oi_quantity = 3, oi_unit_price = 10,
      oi_discount_percent = 10,
      oi_discount_amount =
        round2 (float_div (float_mul (float_mul 10 (float_of_int 3)) (float_of_int 10)) 100),
      oi_total_amount =
        round2 (float_sub (float_mul 10 (float_of_int 3))
                  (round2 (float_div (float_mul (float_mul 10 (float_of_int 3)) (float_of_int 10)) 100)))\<rparr>"



definition foreign_store_db_legacy :: db_legacy where
  "foreign_store_db_legacy = empty_db_legacy\<lparr>l_stores :=
     [(1, \<lparr>s_store_name = ''Elsewhere'', s_rls_user_id = ''u-9'', s_is_online = False\<rparr>)]\<rparr>"

section \<open>Facts about the library functions\<close>

lemma bind_result_Inr:
  "bind_result m f = Inr y \<longleftrightarrow> (\<exists>x. m = Inr x \<and> f x = Inr y)"
  by (cases m) (simp_all add: bind_result_def)

lemma bind_result_simps [simp]:
  "bind_result (Inl e) f = Inl e"
  "bind_result (Inr x) f = f x"
  by (simp_all add: bind_result_def)

lemma random_random_range:
  "random_random r = (u, r') \<Longrightarrow> 0 \<le> u \<and> u < 1"
  by (auto simp: random_random_def frac_lt_1)


lemma random_choice_mem:
  assumes "random_choice xs r = Inr (x, r')"
  shows "x \<in> set xs"
proof -
  from assms have ne: "xs \<noteq> []"
    by (auto simp: random_choice_def split: if_splits)
  obtain u r1 where u: "random_random r = (u, r1)"
    by (cases "random_random r")
  have u01: "0 \<le> u" "u < 1"
    using random_random_range [OF u] by simp_all
  have x: "x = xs ! nat \<lfloor>u * of_nat (length xs)\<rfloor>"
    using assms ne u by (simp add: random_choice_def)
  have pos: "(0::rat) < of_nat (length xs)"
    using ne by simp
  have "u * of_nat (length xs) < of_nat (length xs)"
    using u01 pos by simp
  then have "\<lfloor>u * of_nat (length xs)\<rfloor> < int (length xs)"
    by (simp add: floor_less_iff)
  moreover have "0 \<le> \<lfloor>u * of_nat (length xs)\<rfloor>"
    using u01 by simp
  ultimately have "nat \<lfloor>u * of_nat (length xs)\<rfloor> < length xs"
    by (simp add: nat_less_iff)
  with x show ?thesis
    by simp
qed

lemma random_choice_succeeds:
  "xs \<noteq> [] \<Longrightarrow> \<exists>x r'. random_choice xs r = Inr (x, r')"
  by (cases "random_random r") (simp add: random_choice_def)

lemma bisect_range:
  "lo \<le> hi \<Longrightarrow> lo \<le> bisect a x lo hi \<and> bisect a x lo hi \<le> hi"
proof (induction a x lo hi rule: bisect.induct)
  case (1 a x lo hi)
  show ?case
  proof (cases "lo < hi")
    case False
    with "1.prems" show ?thesis
      by (subst bisect.simps, subst bisect.simps) simp
  next
    case True
    show ?thesis
    proof (cases "x < a ! ((lo + hi) div 2)")
      case left: True
      have "lo \<le> (lo + hi) div 2" and mid: "(lo + hi) div 2 \<le> hi"
        using True by simp_all
      from "1.IH"(1) [OF True left this(1)] True left mid show ?thesis
        by (simp add: bisect.simps [of a x lo hi])
    next
      case right: False
      have "(lo + hi) div 2 + 1 \<le> hi" and mid: "lo \<le> (lo + hi) div 2 + 1"
        using True by simp_all
      from "1.IH"(2) [OF True right this(1)] True right mid show ?thesis
        by (simp add: bisect.simps [of a x lo hi])
    qed
  qed
qed

lemma length_accumulate_from [simp]:
  "length (accumulate_from acc ws) = length ws"
  by (induction ws arbitrary: acc) simp_all

lemma length_accumulate [simp]:
  "length (accumulate ws) = length ws"
  by (simp add: accumulate_def)

lemma random_choices_mem:
  assumes "random_choices population weights r = Inr (x, r')"
  shows "x \<in> set population"
proof -
  from assms have ne: "accumulate weights \<noteq> []" and len: "length weights = length population"
    by (auto simp: random_choices_def Let_def split: if_splits)
  obtain u r1 where u: "random_random r = (u, r1)"
    by (cases "random_random r")
  from assms ne len u
  have x: "x = population ! bisect (accumulate weights) (u * last (accumulate weights)) 0 (length population - 1)"
    by (auto simp: random_choices_def Let_def split: if_splits)
  have "population \<noteq> []"
    using ne len by (metis length_accumulate length_0_conv)
  moreover have "bisect (accumulate weights) (u * last (accumulate weights)) 0 (length population - 1)
      \<le> length population - 1"
    using bisect_range [of 0 "length population - 1"] by simp
  ultimately have "bisect (accumulate weights) (u * last (accumulate weights)) 0 (length population - 1)
      < length population"
    by (cases population) simp_all
  with x show ?thesis
    by simp
qed

lemma random_choices_succeeds:
  assumes "length weights = length population" and "population \<noteq> []"
    and "0 < last (accumulate weights)"
  shows "\<exists>x r'. random_choices population weights r = Inr (x, r')"
proof -
  have "accumulate weights \<noteq> []"
    using assms(1,2) by (metis length_accumulate length_0_conv)
  with assms show ?thesis
    by (cases "random_random r") (simp add: random_choices_def Let_def)
qed

subsection \<open>Floating-point arithmetic\<close>

lemma float_round_0 [simp]: "float_round 0 = 0"
  by (simp add: float_round_def)

lemma float_of_int_0 [simp]: "float_of_int 0 = 0"
  by (simp add: float_of_int_def)

lemma float_mul_0 [simp]: "float_mul x 0 = 0" "float_mul 0 y = 0"
  by (simp_all add: float_mul_def)

lemma float_div_0 [simp]: "float_div 0 y = 0"
  by (simp add: float_div_def)

text \<open>
  Some values of Python, for comparison: \<open>0.67\<close> is \<open>6034823500676465 / 2 ** 53\<close>,
  \<open>round(1.5 * 0.67, 2)\<close> is \<open>1.01\<close> and \<open>round(14.5 * 0.67, 2)\<close> is \<open>9.71\<close> (the exact
  products 1.005 and 9.715 are ties; the float products are not).
\<close>

lemma float_round_67: "float_round (67 / 100) = 6034823500676465 / 9007199254740992"
  by code_simp

lemma round_cost_150:
  "round2 (float_mul (float_round (3 / 2)) (float_round (67 / 100))) = float_round (101 / 100)"
  by code_simp

lemma round_cost_1450:
  "round2 (float_mul (float_round (29 / 2)) (float_round (67 / 100))) = float_round (971 / 100)"
  by code_simp

lemma of_char_digit_char:
  "d < 10 \<Longrightarrow> (of_char (digit_char d) :: nat) = 48 + d"
  by (simp add: digit_char_def)

lemma is_digit_digit_char:
  "d < 10 \<Longrightarrow> is_digit (digit_char d)"
  by (simp add: is_digit_def of_char_digit_char)

lemma str_nat_digits:
  "list_all is_digit (str_nat n)"
proof (induction n rule: str_nat.induct)
  case (1 n)
  show ?case
  proof (cases "n < 10")
    case True
    then show ?thesis
      by (subst str_nat.simps) (simp add: is_digit_digit_char)
  next
    case False
    with 1 show ?thesis
      by (subst str_nat.simps) (simp add: is_digit_digit_char)
  qed
qed

lemma digits_val_snoc:
  "digits_val (s @ [c]) = 10 * digits_val s + (of_char c - 48)"
  by (simp add: digits_val_def)

lemma digits_val_str_nat:
  "digits_val (str_nat n) = n"
proof (induction n rule: str_nat.induct)
  case (1 n)
  show ?case
  proof (cases "n < 10")
    case True
    then show ?thesis
      by (subst str_nat.simps) (simp add: digits_val_def of_char_digit_char)
  next
    case False
    with 1 have "digits_val (str_nat (n div 10)) = n div 10"
      by simp
    with False show ?thesis
      by (subst str_nat.simps) (simp add: digits_val_snoc of_char_digit_char)
  qed
qed

lemma str_nat_inj:
  "str_nat m = str_nat n \<Longrightarrow> m = n"
  by (metis digits_val_str_nat)

lemma str_nat_not_Nil:
  "str_nat n \<noteq> []"
  by (subst str_nat.simps) simp

lemma hd_str_nat_digit:
  "is_digit (hd (str_nat n))"
  using str_nat_digits [of n] str_nat_not_Nil [of n]
  by (cases "str_nat n") simp_all

lemma minus_not_digit:
  "\<not> is_digit (CHR ''-'')"
  by (simp add: is_digit_def)

lemma dot_not_digit:
  "\<not> is_digit (CHR ''.'')"
  by (simp add: is_digit_def)

lemma str_int_inj:
  assumes "str_int i = str_int j"
  shows "i = j"
proof (cases "i < 0")
  case ineg: True
  show ?thesis
  proof (cases "j < 0")
    case True
    with ineg assms have "str_nat (nat (- i)) = str_nat (nat (- j))"
      by (simp add: str_int_def)
    then have "nat (- i) = nat (- j)"
      by (rule str_nat_inj)
    with ineg True show ?thesis
      by simp
  next
    case False
    with ineg assms have "hd (str_nat (nat j)) = CHR ''-''"
      by (simp add: str_int_def) (metis list.sel(1))
    with hd_str_nat_digit [of "nat j"] minus_not_digit show ?thesis
      by simp
  qed
next
  case ipos: False
  show ?thesis
  proof (cases "j < 0")
    case True
    with ipos assms have "hd (str_nat (nat i)) = CHR ''-''"
      by (simp add: str_int_def)
    with hd_str_nat_digit [of "nat i"] minus_not_digit show ?thesis
      by simp
  next
    case False
    with ipos assms have "str_nat (nat i) = str_nat (nat j)"
      by (simp add: str_int_def)
    then have "nat i = nat j"
      by (rule str_nat_inj)
    with ipos False show ?thesis
      by simp
  qed
qed

lemma dot_notin_str_int:
  "CHR ''.'' \<notin> set (str_int i)"
proof -
  have "CHR ''.'' \<notin> set (str_nat n)" for n
    using str_nat_digits [of n] dot_not_digit by (auto simp: list_all_iff)
  then show ?thesis
    by (simp add: str_int_def)
qed

lemma last_segment_eq:
  assumes "c \<notin> set s" and "c \<notin> set t" and "A @ c # s = B @ c # t"
  shows "s = t"
proof -
  have "rev (A @ c # s) = rev (B @ c # t)"
    using assms(3) by simp
  then have "rev s @ c # rev A = rev t @ c # rev B"
    by simp
  then have "takeWhile (\<lambda>x. x \<noteq> c) (rev s @ c # rev A) = takeWhile (\<lambda>x. x \<noteq> c) (rev t @ c # rev B)"
    by simp
  moreover have "takeWhile (\<lambda>x. x \<noteq> c) (rev s @ c # rev A) = rev s"
    using assms(1) by (auto simp: takeWhile_tail)
  moreover have "takeWhile (\<lambda>x. x \<noteq> c) (rev t @ c # rev B) = rev t"
    using assms(2) by (auto simp: takeWhile_tail)
  ultimately show ?thesis
    by simp
qed

lemma email_of_inj:
  assumes "email_of f l i = email_of f' l' j"
  shows "i = j"
proof -
  from assms
  have "((lower f @ ''.'' @ lower l) @ CHR ''.'' # str_int i) @ ''@example.com''
      = ((lower f' @ ''.'' @ lower l') @ CHR ''.'' # str_int j) @ ''@example.com''"
    by (simp add: email_of_def)
  then have "(lower f @ ''.'' @ lower l) @ CHR ''.'' # str_int i
      = (lower f' @ ''.'' @ lower l') @ CHR ''.'' # str_int j"
    by (simp only: append_same_eq)
  then have "str_int i = str_int j"
    by (rule last_segment_eq [OF dot_notin_str_int dot_notin_str_int])
  then show ?thesis
    by (rule str_int_inj)
qed

lemma numbered_emails_distinct:
  "numbered_emails objs idxs \<Longrightarrow> distinct idxs \<Longrightarrow> distinct (map c_email objs)"
  unfolding numbered_emails_def
proof (induction objs idxs rule: list_all2_induct)
  case Nil
  then show ?case by simp
next
  case (Cons c objs i idxs)
  have "c_email c \<notin> c_email ` set objs"
  proof
    assume "c_email c \<in> c_email ` set objs"
    then obtain c' where c': "c' \<in> set objs" "c_email c' = c_email c"
      by auto
    from Cons.hyps(2) c'(1) have "\<exists>j\<in>set idxs. \<exists>f l. c_email c' = email_of f l j"
      by (auto simp: list_all2_conv_all_nth in_set_conv_nth) (metis nth_mem)
    then obtain j where j: "j \<in> set idxs" "\<exists>f l. c_email c' = email_of f l j"
      by blast
    with Cons.hyps(1) c'(2) have "i = j"
      by (metis email_of_inj)
    with j(1) Cons.prems show False
      by simp
  qed
  with Cons show ?case
    by simp
qed

lemma customer_objects_numbered:
  "customer_objects ref m fid idxs r = Inr (objs, r') \<Longrightarrow> numbered_emails objs idxs"
proof (induction idxs arbitrary: r objs r')
  case Nil
  then show ?case by (simp add: numbered_emails_def)
next
  case (Cons i idxs)
  from Cons.prems have "\<exists>objs' r4 row. customer_objects ref m fid idxs r4 = Inr (objs', r')
      \<and> objs = row # objs' \<and> (\<exists>f l. c_email row = email_of f l i)"
    by (auto simp: bind_result_Inr split: prod.splits) blast+
  then obtain objs' r4 row where
    rest: "customer_objects ref m fid idxs r4 = Inr (objs', r')"
    and objs: "objs = row # objs'"
    and row: "\<exists>f l. c_email row = email_of f l i"
    by blast
  from Cons.IH [OF rest] objs row show ?case
    by (simp add: numbered_emails_def)
qed

lemma customer_objects_legacy_numbered:
  "customer_objects_legacy ref rows idxs r = Inr (objs, r') \<Longrightarrow> numbered_emails objs idxs"
proof (induction idxs arbitrary: r objs r')
  case Nil
  then show ?case by (simp add: numbered_emails_def)
next
  case (Cons i idxs)
  from Cons.prems have "\<exists>objs' r4 row. customer_objects_legacy ref rows idxs r4 = Inr (objs', r')
      \<and> objs = row # objs' \<and> (\<exists>f l. c_email row = email_of f l i)"
    by (auto simp: bind_result_Inr split: prod.splits) blast+
  then obtain objs' r4 row where
    rest: "customer_objects_legacy ref rows idxs r4 = Inr (objs', r')"
    and objs: "objs = row # objs'"
    and row: "\<exists>f l. c_email row = email_of f l i"
    by blast
  from Cons.IH [OF rest] objs row show ?case
    by (simp add: numbered_emails_def)
qed

section \<open>The customers stages\<close>

lemma weighted_store_choice_succeeds:
  assumes "stores ref \<noteq> []" and "0 < last (accumulate (store_weights ref))"
  shows "\<exists>name r'. weighted_store_choice ref r = Inr (name, r')"
proof -
  have "\<exists>x r'. random_choices (map fst (stores ref)) (store_weights ref) r = Inr (x, r')"
    using assms by (intro random_choices_succeeds) (simp_all add: store_weights_def)
  then show ?thesis
    by (auto simp: weighted_store_choice_def store_weights_def Let_def)
qed

lemma weighted_store_choice_name:
  assumes "weighted_store_choice ref r = Inr (name, r')"
  shows "name \<in> reference_store_names ref"
proof -
  from assms obtain selected_id r1 where
    sel: "random_choices (map fst (stores ref)) (store_weights ref) r = Inr (selected_id, r1)"
    and name: "name = sc_store_name (the (map_of (stores ref) selected_id))"
    by (auto simp: weighted_store_choice_def store_weights_def Let_def bind_result_Inr)
  from random_choices_mem [OF sel] have "selected_id \<in> fst ` set (stores ref)"
    by simp
  then obtain cfg where cfg: "map_of (stores ref) selected_id = Some cfg"
    by (metis domD dom_map_of_conv_image_fst)
  then have "(selected_id, cfg) \<in> set (stores ref)"
    by (rule map_of_SomeD)
  with name cfg show ?thesis
    by (force simp: reference_store_names_def)
qed

lemma weighted_store_choice_legacy_succeeds:
  assumes "stores_legacy ref \<noteq> []" and "0 < last (accumulate (store_weights_legacy ref))"
  shows "\<exists>name r'. weighted_store_choice_legacy ref r = Inr (name, r')"
  unfolding weighted_store_choice_legacy_def Let_def
  using assms by (intro random_choices_succeeds) (simp_all add: store_weights_legacy_def)

lemma weighted_store_choice_legacy_name:
  "weighted_store_choice_legacy ref r = Inr (name, r') \<Longrightarrow> name \<in> set (map fst (stores_legacy ref))"
  unfolding weighted_store_choice_legacy_def Let_def by (rule random_choices_mem)

lemma customer_objects_succeeds:
  assumes "\<And>r. \<exists>name r'. weighted_store_choice ref r = Inr (name, r')"
  shows "\<exists>objs r'. customer_objects ref m fid idxs r = Inr (objs, r')"
proof (induction idxs arbitrary: r)
  case Nil
  then show ?case by simp
next
  case (Cons i idxs)
  obtain a r1 where a: "fake_name r = (a, r1)" by (cases "fake_name r")
  obtain b r2 where b: "fake_name r1 = (b, r2)" by (cases "fake_name r1")
  obtain p r3 where p: "generate_phone_number r2 = (p, r3)" by (cases "generate_phone_number r2")
  from assms obtain name r4 where w: "weighted_store_choice ref r3 = Inr (name, r4)" by blast
  from Cons.IH obtain objs r5 where rest: "customer_objects ref m fid idxs r4 = Inr (objs, r5)" by blast
  show ?case
    by (simp add: a b p w rest)
qed

lemma customer_objects_legacy_succeeds:
  assumes "\<And>r. \<exists>name r'. weighted_store_choice_legacy ref r = Inr (name, r')"
  shows "\<exists>objs r'. customer_objects_legacy ref rows idxs r = Inr (objs, r')"
proof (induction idxs arbitrary: r)
  case Nil
  then show ?case by simp
next
  case (Cons i idxs)
  obtain a r1 where a: "fake_name r = (a, r1)" by (cases "fake_name r")
  obtain b r2 where b: "fake_name r1 = (b, r2)" by (cases "fake_name r1")
  obtain p r3 where p: "generate_phone_number r2 = (p, r3)" by (cases "generate_phone_number r2")
  from assms obtain name r4 where w: "weighted_store_choice_legacy ref r3 = Inr (name, r4)" by blast
  from Cons.IH obtain objs r5 where rest: "customer_objects_legacy ref rows idxs r4 = Inr (objs, r5)" by blast
  show ?case
    by (simp add: a b p w rest)
qed

lemma insert_customers_succeeds:
  assumes "t_stores d \<noteq> []" and "stores ref \<noteq> []" and "0 < last (accumulate (store_weights ref))"
  shows "\<exists>d' r'. insert_customers ref d r n = Inr (d', r')"
proof -
  have "\<exists>objs r'. customer_objects ref (store_name_to_id d) (fst (hd (t_stores d))) [1 .. n] r = Inr (objs, r')"
    by (rule customer_objects_succeeds) (rule weighted_store_choice_succeeds [OF assms(2,3)])
  with assms(1) show ?thesis
    by (auto simp: insert_customers_def)
qed

lemma insert_customers_legacy_succeeds:
  assumes "stores_legacy ref \<noteq> []" and "0 < last (accumulate (store_weights_legacy ref))"
  shows "\<exists>d' r'. insert_customers_legacy ref d r n = Inr (d', r')"
proof -
  have "\<exists>objs r'. customer_objects_legacy ref (l_stores d) [1 .. n] r = Inr (objs, r')"
    by (rule customer_objects_legacy_succeeds) (rule weighted_store_choice_legacy_succeeds [OF assms])
  then show ?thesis
    by (auto simp: insert_customers_legacy_def)
qed

lemma insert_customers_Inr:
  assumes "insert_customers ref d r n = Inr (d', r')"
  shows "t_stores d \<noteq> [] \<and> (\<exists>objs.
     customer_objects ref (store_name_to_id d) (fst (hd (t_stores d))) [1 .. n] r = Inr (objs, r')
     \<and> d' = d\<lparr>t_customers := bulk_insert_objects (t_customers d) objs\<rparr>)"
  using assms by (auto simp: insert_customers_def bind_result_Inr split: if_splits)

lemma insert_customers_legacy_Inr:
  assumes "insert_customers_legacy ref d r n = Inr (d', r')"
  shows "\<exists>objs. customer_objects_legacy ref (l_stores d) [1 .. n] r = Inr (objs, r')
     \<and> d' = d\<lparr>l_customers := bulk_insert_objects (l_customers d) objs\<rparr>"
  using assms by (auto simp: insert_customers_legacy_def bind_result_Inr)

lemma numbered_emails_length:
  "numbered_emails objs idxs \<Longrightarrow> length objs = length idxs"
  by (simp add: numbered_emails_def list_all2_lengthD)

text \<open>
  C7. The emails of the customers one run of the customers stage inserts are pairwise
  distinct, in both generators: the stage inserts exactly \<open>num_customers\<close> rows (none is
  dropped or merged afterwards), and the email of the \<open>i\<close>-th ends in \<open>.i@example.com\<close>,
  whatever the two names are.
\<close>

theorem C7_emails_pairwise_distinct:
  "(insert_customers ref d r n = Inr (d', r') \<longrightarrow>
      (\<exists>objs. t_customers d' = bulk_insert_objects (t_customers d) objs
         \<and> length objs = nat n \<and> distinct (map c_email objs)))
   \<and> (insert_customers_legacy lref ld r n = Inr (ld', r') \<longrightarrow>
      (\<exists>objs. l_customers ld' = bulk_insert_objects (l_customers ld) objs
         \<and> length objs = nat n \<and> distinct (map c_email objs)))"
proof (intro conjI impI)
  assume "insert_customers ref d r n = Inr (d', r')"
  from insert_customers_Inr [OF this] obtain objs where
    objs: "customer_objects ref (store_name_to_id d) (fst (hd (t_stores d))) [1 .. n] r = Inr (objs, r')"
    and d': "d' = d\<lparr>t_customers := bulk_insert_objects (t_customers d) objs\<rparr>"
    by blast
  have num: "numbered_emails objs [1 .. n]"
    using objs by (rule customer_objects_numbered)
  have "length objs = nat n"
    using numbered_emails_length [OF num] by simp
  moreover have "distinct (map c_email objs)"
    using num by (rule numbered_emails_distinct) simp
  ultimately show "\<exists>objs. t_customers d' = bulk_insert_objects (t_customers d) objs
      \<and> length objs = nat n \<and> distinct (map c_email objs)"
    using d' by auto
next
  assume "insert_customers_legacy lref ld r n = Inr (ld', r')"
  from insert_customers_legacy_Inr [OF this] obtain objs where
    objs: "customer_objects_legacy lref (l_stores ld) [1 .. n] r = Inr (objs, r')"
    and d': "ld' = ld\<lparr>l_customers := bulk_insert_objects (l_customers ld) objs\<rparr>"
    by blast
  have num: "numbered_emails objs [1 .. n]"
    using objs by (rule customer_objects_legacy_numbered)
  have "length objs = nat n"
    using numbered_emails_length [OF num] by simp
  moreover have "distinct (map c_email objs)"
    using num by (rule numbered_emails_distinct) simp
  ultimately show "\<exists>objs. l_customers ld' = bulk_insert_objects (l_customers ld) objs
      \<and> length objs = nat n \<and> distinct (map c_email objs)"
    using d' by auto
qed

lemma sample_ref_weights:
  "stores sample_ref \<noteq> []" "0 < last (accumulate (store_weights sample_ref))"
  by (simp_all add: sample_ref_def store_weights_def accumulate_def)

lemma sample_ref_legacy_weights:
  "stores_legacy sample_ref_legacy \<noteq> []" "0 < last (accumulate (store_weights_legacy sample_ref_legacy))"
  by (simp_all add: sample_ref_legacy_def store_weights_legacy_def accumulate_def)

theorem C7_witness:
  "(\<exists>d' r' objs. insert_customers sample_ref foreign_store_db sample_rnd 3 = Inr (d', r')
       \<and> t_customers d' = bulk_insert_objects (t_customers foreign_store_db) objs
       \<and> length objs = 3 \<and> distinct (map c_email objs))
   \<and> (\<exists>d' r' objs. insert_customers_legacy sample_ref_legacy foreign_store_db_legacy sample_rnd 3 = Inr (d', r')
       \<and> l_customers d' = bulk_insert_objects (l_customers foreign_store_db_legacy) objs
       \<and> length objs = 3 \<and> distinct (map c_email objs))"
proof -
  have "t_stores foreign_store_db \<noteq> []"
    by (simp add: foreign_store_db_def)
  from insert_customers_succeeds [OF this sample_ref_weights]
  obtain d' r' where run: "insert_customers sample_ref foreign_store_db sample_rnd 3 = Inr (d', r')"
    by blast
  from insert_customers_legacy_succeeds [OF sample_ref_legacy_weights]
  obtain ld' lr' where lrun:
    "insert_customers_legacy sample_ref_legacy foreign_store_db_legacy sample_rnd 3 = Inr (ld', lr')"
    by blast
  from C7_emails_pairwise_distinct [of sample_ref foreign_store_db sample_rnd 3 d' r'] run
  have a: "\<exists>objs. t_customers d' = bulk_insert_objects (t_customers foreign_store_db) objs
      \<and> length objs = 3 \<and> distinct (map c_email objs)"
    by simp
  from C7_emails_pairwise_distinct [of _ _ sample_rnd 3 _ lr' sample_ref_legacy foreign_store_db_legacy ld'] lrun
  have b: "\<exists>objs. l_customers ld' = bulk_insert_objects (l_customers foreign_store_db_legacy) objs
      \<and> length objs = 3 \<and> distinct (map c_email objs)"
    by simp
  from run a lrun b show ?thesis
    by blast
qed

section \<open>The suppliers stage\<close>







section \<open>The products stages\<close>

lemma product_object_priced:
  "priced_from product (product_object ref product category_id type_id)"
  by (simp add: priced_from_def product_object_def Let_def)

lemma product_objects_priced:
  "product_objects ref cm tm ps = Inr objs \<Longrightarrow>
   list_all (\<lambda>row. \<exists>product\<in>set ps. priced_from product row) objs"
proof (induction ps arbitrary: objs)
  case Nil
  then show ?case by simp
next
  case (Cons p ps)
  have weaken: "list_all (\<lambda>row. \<exists>product\<in>set (p # ps). priced_from product row) xs"
    if "list_all (\<lambda>row. \<exists>product\<in>set ps. priced_from product row) xs" for xs
    using that by (auto simp: list_all_iff)
  from Cons.prems consider
      (skip) "product_objects ref cm tm ps = Inr objs"
    | (keep) category_id type_id objs' where
        "product_objects ref cm tm ps = Inr objs'"
        "objs = product_object ref p category_id type_id # objs'"
    by (auto simp: bind_result_Inr split: option.splits if_splits)
  then show ?case
  proof cases
    case skip
    from Cons.IH [OF skip] show ?thesis
      by (rule weaken)
  next
    case keep
    from Cons.IH [OF keep(1)] have "list_all (\<lambda>row. \<exists>product\<in>set (p # ps). priced_from product row) objs'"
      by (rule weaken)
    with keep(2) product_object_priced [of p ref category_id type_id] show ?thesis
      by auto
  qed
qed

lemma products_of_list_priced:
  "products_of_list category_id type_id acc items = Inr acc' \<Longrightarrow>
   \<exists>new. acc' = acc @ new \<and> list_all (\<lambda>row. \<exists>product\<in>set (dicts_of items). priced_from_legacy product row) new"
proof (induction category_id type_id acc items arbitrary: acc' rule: products_of_list.induct)
  case (1 category_id type_id acc)
  then show ?case by simp
next
  case (2 category_id type_id acc rest)
  then show ?case by simp
next
  case (3 category_id type_id acc product_details rest)
  let ?row = "\<lparr>lp_sku = (case ld_sku product_details of None \<Rightarrow> default_sku (length acc + 1) | Some k \<Rightarrow> k),
      lp_product_name = ld_name product_details, lp_category_id = category_id, lp_type_id = type_id,
      lp_cost = float_round (ld_price product_details),
      lp_base_price = round2 (float_div (float_round (ld_price product_details)) (float_round (67 / 100))),
      lp_product_description = ld_description product_details\<rparr>"
  from "3.prems" have run: "products_of_list category_id type_id (acc @ [?row]) rest = Inr acc'"
    by (simp add: Let_def)
  have "\<exists>new. acc' = (acc @ [?row]) @ new
      \<and> list_all (\<lambda>row. \<exists>product\<in>set (dicts_of rest). priced_from_legacy product row) new"
    by (rule "3.IH" [OF refl refl refl refl refl run])
  then obtain new where new: "acc' = (acc @ [?row]) @ new"
    "list_all (\<lambda>row. \<exists>product\<in>set (dicts_of rest). priced_from_legacy product row) new"
    by blast
  have "priced_from_legacy product_details ?row"
    by (simp add: priced_from_legacy_def)
  with new have "acc' = acc @ (?row # new)
      \<and> list_all (\<lambda>row. \<exists>product\<in>set (dicts_of (Dict product_details # rest)). priced_from_legacy product row) (?row # new)"
    by (auto simp: list_all_iff)
  then show ?case
    by blast
qed


lemma list_all_Bex_mono:
  "list_all (\<lambda>row. \<exists>p\<in>A. Q p row) xs \<Longrightarrow> A \<subseteq> B \<Longrightarrow> list_all (\<lambda>row. \<exists>p\<in>B. Q p row) xs"
  by (auto simp: list_all_iff)

lemma subcategory_entries_Cons:
  "subcategory_entries ((subcategory, product_list) # subs) = dicts_of_val product_list @ subcategory_entries subs"
  by (simp add: subcategory_entries_def)

lemma products_of_subcategories_priced:
  "products_of_subcategories tm category_id acc subs = Inr acc' \<Longrightarrow>
   \<exists>new. acc' = acc @ new
     \<and> list_all (\<lambda>row. \<exists>product\<in>set (subcategory_entries subs). priced_from_legacy product row) new"
proof (induction subs arbitrary: acc acc')
  case Nil
  then show ?case by simp
next
  case (Cons sub subs)
  obtain subcategory product_list where sub: "sub = (subcategory, product_list)"
    by (cases sub)
  have weaken: "list_all (\<lambda>row. \<exists>product\<in>set (subcategory_entries (sub # subs)). priced_from_legacy product row) xs"
    if "list_all (\<lambda>row. \<exists>product\<in>set (subcategory_entries subs). priced_from_legacy product row) xs" for xs
    using that by (rule list_all_Bex_mono) (simp add: sub subcategory_entries_Cons)
  from Cons.prems sub consider
      (skip) "products_of_subcategories tm category_id acc subs = Inr acc'"
    | (keep) type_id items mid where "product_list = JList items"
        "products_of_list category_id type_id acc items = Inr mid"
        "products_of_subcategories tm category_id mid subs = Inr acc'"
    by (auto simp: bind_result_Inr split: option.splits if_splits json_val.splits)
  then show ?case
  proof cases
    case skip
    from Cons.IH [OF skip] weaken show ?thesis
      by blast
  next
    case keep
    from products_of_list_priced [OF keep(2)] obtain new1 where new1: "mid = acc @ new1"
      "list_all (\<lambda>row. \<exists>product\<in>set (dicts_of items). priced_from_legacy product row) new1"
      by blast
    from Cons.IH [OF keep(3)] obtain new2 where new2: "acc' = mid @ new2"
      "list_all (\<lambda>row. \<exists>product\<in>set (subcategory_entries subs). priced_from_legacy product row) new2"
      by blast
    from new1(2)
    have "list_all (\<lambda>row. \<exists>product\<in>set (subcategory_entries (sub # subs)). priced_from_legacy product row) new1"
      by (rule list_all_Bex_mono) (simp add: sub keep(1) subcategory_entries_Cons dicts_of_val_def)
    with weaken [OF new2(2)] new1(1) new2(1)
    have "acc' = acc @ (new1 @ new2)
        \<and> list_all (\<lambda>row. \<exists>product\<in>set (subcategory_entries (sub # subs)). priced_from_legacy product row) (new1 @ new2)"
      by simp
    then show ?thesis
      by blast
  qed
qed

lemma products_data_priced:
  "products_data cm tm acc cats = Inr acc' \<Longrightarrow>
   \<exists>new. acc' = acc @ new
     \<and> list_all (\<lambda>row. \<exists>product\<in>set (concat (map (\<lambda>(category, subs). subcategory_entries subs) cats)).
                    priced_from_legacy product row) new"
proof (induction cats arbitrary: acc acc')
  case Nil
  then show ?case by simp
next
  case (Cons cat cats)
  obtain main_category subs where cat: "cat = (main_category, subs)"
    by (cases cat)
  from Cons.prems cat obtain category_id mid where
    first: "products_of_subcategories tm category_id acc subs = Inr mid"
    and rest: "products_data cm tm mid cats = Inr acc'"
    by (auto simp: bind_result_Inr split: option.splits)
  from products_of_subcategories_priced [OF first] obtain new1 where new1: "mid = acc @ new1"
    "list_all (\<lambda>row. \<exists>product\<in>set (subcategory_entries subs). priced_from_legacy product row) new1"
    by blast
  from Cons.IH [OF rest] obtain new2 where new2: "acc' = mid @ new2"
    "list_all (\<lambda>row. \<exists>product\<in>set (concat (map (\<lambda>(category, subs). subcategory_entries subs) cats)).
                    priced_from_legacy product row) new2"
    by blast
  have "list_all (\<lambda>row. \<exists>product\<in>set (concat (map (\<lambda>(category, subs). subcategory_entries subs) (cat # cats))).
                    priced_from_legacy product row) new1"
    using new1(2) by (rule list_all_Bex_mono) (simp add: cat)
  moreover
  have "list_all (\<lambda>row. \<exists>product\<in>set (concat (map (\<lambda>(category, subs). subcategory_entries subs) (cat # cats))).
                    priced_from_legacy product row) new2"
    using new2(2) by (rule list_all_Bex_mono) (simp add: cat)
  ultimately
  have "acc' = acc @ (new1 @ new2)
      \<and> list_all (\<lambda>row. \<exists>product\<in>set (concat (map (\<lambda>(category, subs). subcategory_entries subs) (cat # cats))).
                    priced_from_legacy product row) (new1 @ new2)"
    using new1(1) new2(1) by simp
  then show ?case
    by blast
qed

lemma catalog_entries_alt:
  "catalog_entries ref = concat (map (\<lambda>(category, subs). subcategory_entries subs) (main_categories ref))"
  by (simp add: catalog_entries_def subcategory_entries_def)

lemma insert_products_legacy_priced:
  assumes "insert_products_legacy ref d = Inr d'"
  shows "\<exists>objs. l_products d' = bulk_insert_objects (l_products d) objs
     \<and> list_all (\<lambda>row. \<exists>product\<in>set (catalog_entries ref). priced_from_legacy product row) objs"
proof -
  from assms obtain objs where
    objs: "products_data (category_mapping_legacy d) (type_mapping_legacy d) [] (main_categories ref) = Inr objs"
    and d': "d' = d\<lparr>l_products := bulk_insert_objects (l_products d) objs\<rparr>"
    by (auto simp: insert_products_legacy_def bind_result_Inr)
  from products_data_priced [OF objs] d' show ?thesis
    by (auto simp: catalog_entries_alt)
qed

lemma insert_products_priced:
  assumes "insert_products ref d = Inr d'"
  shows "\<exists>objs. t_products d' = bulk_insert_objects (t_products d) objs
     \<and> list_all (\<lambda>row. \<exists>product\<in>set (products_list ref). priced_from product row) objs"
proof -
  from assms obtain objs where
    objs: "product_objects ref (category_mapping d) (type_mapping d) (products_list ref) = Inr objs"
    and d': "d' = d\<lparr>t_products := bulk_insert_objects (t_products d) objs\<rparr>"
    by (auto simp: insert_products_def bind_result_Inr)
  from product_objects_priced [OF objs] d' show ?thesis
    by auto
qed

text \<open>
  C5 (as amended). Every product the ORM products stage inserts comes from a catalog
  entry: its base price is the entry's price (as a float), its cost is
  \<open>round(base_price * 0.67, 2)\<close> as Python's float arithmetic computes it, and its
  supplier id is the entry's. Every product the legacy products stage inserts comes from
  a catalog entry too, but there the entry's price is stored as the cost and the base
  price is \<open>round(cost / 0.67, 2)\<close>; the legacy products carry no supplier id.
\<close>

theorem C5_cost_and_base_price:
  "(insert_products ref d = Inr d' \<longrightarrow>
      (\<exists>objs. t_products d' = bulk_insert_objects (t_products d) objs
         \<and> list_all (\<lambda>row. \<exists>product\<in>set (products_list ref). priced_from product row) objs))
   \<and> (insert_products_legacy lref ld = Inr ld' \<longrightarrow>
      (\<exists>objs. l_products ld' = bulk_insert_objects (l_products ld) objs
         \<and> list_all (\<lambda>row. \<exists>product\<in>set (catalog_entries lref). priced_from_legacy product row) objs))"
  using insert_products_priced insert_products_legacy_priced by blast

lemma sample_products_stage:
  "(case insert_products sample_ref sample_catalog_db of
      Inr d' \<Rightarrow> map (\<lambda>(product_id, row). (product_id, p_sku row, p_cost row, p_base_price row)) (t_products d')
                = [(1, ''SKU-A'', float_round (669 / 100), float_round (999 / 100)),
                   (2, ''SKU-B'', float_round (67 / 10), 10)]
    | Inl e \<Rightarrow> False)"
  by code_simp

lemma sample_products_stage_legacy:
  "(case insert_products_legacy sample_ref_legacy sample_catalog_db_legacy of
      Inr d' \<Rightarrow> map (\<lambda>(product_id, row). (product_id, lp_product_name row, lp_cost row, lp_base_price row)) (l_products d')
                = [(1, ''Hammer'', float_round (999 / 100), float_round (1491 / 100))]
    | Inl e \<Rightarrow> False)"
  by code_simp


lemma sample_products_run:
  "\<exists>d'. insert_products sample_ref sample_catalog_db = Inr d'
     \<and> map (\<lambda>(product_id, row). (product_id, p_sku row, p_cost row, p_base_price row)) (t_products d')
         = [(1, ''SKU-A'', float_round (669 / 100), float_round (999 / 100)),
            (2, ''SKU-B'', float_round (67 / 10), 10)]"
  using sample_products_stage by (cases "insert_products sample_ref sample_catalog_db") simp_all

lemma sample_products_run_legacy:
  "\<exists>d'. insert_products_legacy sample_ref_legacy sample_catalog_db_legacy = Inr d'
     \<and> map (\<lambda>(product_id, row). (product_id, lp_product_name row, lp_cost row, lp_base_price row)) (l_products d')
         = [(1, ''Hammer'', float_round (999 / 100), float_round (1491 / 100))]"
  using sample_products_stage_legacy
  by (cases "insert_products_legacy sample_ref_legacy sample_catalog_db_legacy") simp_all

theorem C5_witness:
  "(\<exists>d' objs. insert_products sample_ref sample_catalog_db = Inr d'
       \<and> t_products d' = bulk_insert_objects (t_products sample_catalog_db) objs
       \<and> list_all (\<lambda>row. \<exists>product\<in>set (products_list sample_ref). priced_from product row) objs)
   \<and> (\<exists>ld' objs. insert_products_legacy sample_ref_legacy sample_catalog_db_legacy = Inr ld'
       \<and> l_products ld' = bulk_insert_objects (l_products sample_catalog_db_legacy) objs
       \<and> list_all (\<lambda>row. \<exists>product\<in>set (catalog_entries sample_ref_legacy). priced_from_legacy product row) objs)"
proof -
  from sample_products_run obtain d' where run: "insert_products sample_ref sample_catalog_db = Inr d'"
    by blast
  from sample_products_run_legacy obtain ld' where
    lrun: "insert_products_legacy sample_ref_legacy sample_catalog_db_legacy = Inr ld'"
    by blast
  from C5_cost_and_base_price [of sample_ref sample_catalog_db d' sample_ref_legacy sample_catalog_db_legacy ld']
    run lrun
  show ?thesis
    by simp
qed

lemma sample_cost_differs:
  "float_round (669 / 100) \<noteq> float_mul (float_round (999 / 100)) (float_round (67 / 100))"
  "float_round (669 / 100) \<noteq> (999 / 100) * (67 / 100)"
  "float_round (999 / 100) \<noteq> float_mul (float_round (999 / 100)) (float_round (67 / 100))"
  "float_round (1491 / 100) \<noteq> float_round (999 / 100)"
  by code_simp+

text \<open>
  The claim as stated fails on the sample catalog, whose first entry has the price 9.99:
  the ORM stage stores the cost 6.69, which is neither the float product \<open>9.99 * 0.67\<close>
  nor the exact one (6.6933); the legacy stage stores the cost 9.99 and the base price
  14.91.
\<close>

theorem C5_counterexample:
  "(\<exists>d' row. insert_products sample_ref sample_catalog_db = Inr d'
       \<and> (1, row) \<in> set (t_products d')
       \<and> p_sku row = pd_sku (hd (products_list sample_ref))
       \<and> p_cost row
           \<noteq> float_mul (float_round (pd_price (hd (products_list sample_ref)))) (float_round (67 / 100))
       \<and> p_cost row \<noteq> pd_price (hd (products_list sample_ref)) * (67 / 100))
   \<and> (\<exists>ld' row. insert_products_legacy sample_ref_legacy sample_catalog_db_legacy = Inr ld'
       \<and> (1, row) \<in> set (l_products ld')
       \<and> lp_product_name row = ld_name (hd (catalog_entries sample_ref_legacy))
       \<and> lp_cost row
           \<noteq> float_mul (float_round (ld_price (hd (catalog_entries sample_ref_legacy)))) (float_round (67 / 100))
       \<and> lp_base_price row \<noteq> float_round (ld_price (hd (catalog_entries sample_ref_legacy))))"
proof (intro conjI)
  from sample_products_run obtain d' where run: "insert_products sample_ref sample_catalog_db = Inr d'"
    and rows: "map (\<lambda>(product_id, row). (product_id, p_sku row, p_cost row, p_base_price row)) (t_products d')
         = [(1, ''SKU-A'', float_round (669 / 100), float_round (999 / 100)),
            (2, ''SKU-B'', float_round (67 / 10), 10)]"
    by (elim exE conjE) (rule that)
  from rows obtain row rest where t: "t_products d' = (1, row) # rest"
    and row: "p_sku row = ''SKU-A''" "p_cost row = float_round (669 / 100)"
    by (auto simp: map_eq_Cons_conv)
  have "(1, row) \<in> set (t_products d')"
    using t by simp
  moreover have "p_sku row = pd_sku (hd (products_list sample_ref))"
    using row by (simp add: sample_ref_def)
  moreover have "p_cost row
      \<noteq> float_mul (float_round (pd_price (hd (products_list sample_ref)))) (float_round (67 / 100))"
    using sample_cost_differs(1) by (simp add: row sample_ref_def)
  moreover have "p_cost row \<noteq> pd_price (hd (products_list sample_ref)) * (67 / 100)"
    using sample_cost_differs(2) by (simp add: row sample_ref_def)
  ultimately show "\<exists>d' row. insert_products sample_ref sample_catalog_db = Inr d'
       \<and> (1, row) \<in> set (t_products d')
       \<and> p_sku row = pd_sku (hd (products_list sample_ref))
       \<and> p_cost row
           \<noteq> float_mul (float_round (pd_price (hd (products_list sample_ref)))) (float_round (67 / 100))
       \<and> p_cost row \<noteq> pd_price (hd (products_list sample_ref)) * (67 / 100)"
    using run by blast
next
  from sample_products_run_legacy obtain ld' where
    run: "insert_products_legacy sample_ref_legacy sample_catalog_db_legacy = Inr ld'"
    and rows: "map (\<lambda>(product_id, row). (product_id, lp_product_name row, lp_cost row, lp_base_price row)) (l_products ld')
         = [(1, ''Hammer'', float_round (999 / 100), float_round (1491 / 100))]"
    by (elim exE conjE) (rule that)
  from rows obtain row where t: "l_products ld' = [(1, row)]"
    and row: "lp_product_name row = ''Hammer''" "lp_cost row = float_round (999 / 100)"
      "lp_base_price row = float_round (1491 / 100)"
    by (auto simp: map_eq_Cons_conv)
  from t have mem: "(1, row) \<in> set (l_products ld')"
    by simp
  have hd: "hd (catalog_entries sample_ref_legacy) =
      \<lparr>ld_name = ''Hammer'', ld_sku = Some ''SKU-A'', ld_price = 999 / 100,
       ld_description = ''Claw hammer'', ld_description_embedding = Some [1 / 2]\<rparr>"
    by (simp add: catalog_entries_def subcategory_entries_def sample_ref_legacy_def dicts_of_val_def)
  have "lp_product_name row = ld_name (hd (catalog_entries sample_ref_legacy))"
    using row by (simp add: hd)
  moreover have "lp_cost row
      \<noteq> float_mul (float_round (ld_price (hd (catalog_entries sample_ref_legacy)))) (float_round (67 / 100))"
    using sample_cost_differs(3) by (simp add: row hd)
  moreover have "lp_base_price row \<noteq> float_round (ld_price (hd (catalog_entries sample_ref_legacy)))"
    using sample_cost_differs(4) by (simp add: row hd)
  ultimately show "\<exists>ld' row. insert_products_legacy sample_ref_legacy sample_catalog_db_legacy = Inr ld'
       \<and> (1, row) \<in> set (l_products ld')
       \<and> lp_product_name row = ld_name (hd (catalog_entries sample_ref_legacy))
       \<and> lp_cost row
           \<noteq> float_mul (float_round (ld_price (hd (catalog_entries sample_ref_legacy)))) (float_round (67 / 100))
       \<and> lp_base_price row \<noteq> float_round (ld_price (hd (catalog_entries sample_ref_legacy)))"
    using run mem by blast
qed

section \<open>The orders stages: the amounts of an order item\<close>

lemma order_item_object_rounded:
  "order_item_object order_id store_id product_list r = Inr (item, r') \<Longrightarrow> rounded_item item"
  by (auto simp: order_item_object_def bind_result_Inr rounded_item_def Let_def case_prod_beta)

lemma order_items_of_order_rounded:
  "order_items_of_order order_id store_id product_list n r = Inr (items, r') \<Longrightarrow>
   list_all rounded_item items"
proof (induction n arbitrary: r items)
  case 0
  then show ?case by simp
next
  case (Suc n)
  from Suc.prems obtain obj r1 objs where
    first: "order_item_object order_id store_id product_list r = Inr (obj, r1)"
    and rest: "order_items_of_order order_id store_id product_list n r1 = Inr (objs, r')"
    and items: "items = obj # objs"
    by (auto simp: bind_result_Inr)
  from order_item_object_rounded [OF first] Suc.IH [OF rest] items show ?case
    by simp
qed

lemma order_item_objects_rounded:
  "order_item_objects order_ids store_ids product_list r = Inr (items, r') \<Longrightarrow>
   list_all rounded_item items"
proof (induction order_ids arbitrary: r items)
  case Nil
  then show ?case by simp
next
  case (Cons order_id order_ids)
  from Cons.prems have "\<exists>store_id n r2 objs r3 others.
      order_items_of_order order_id store_id product_list n r2 = Inr (objs, r3)
      \<and> order_item_objects order_ids store_ids product_list r3 = Inr (others, r')
      \<and> items = objs @ others"
    by (auto simp: bind_result_Inr case_prod_beta) (metis prod.collapse)
  then obtain store_id n r2 objs r3 others where
    first: "order_items_of_order order_id store_id product_list n r2 = Inr (objs, r3)"
    and rest: "order_item_objects order_ids store_ids product_list r3 = Inr (others, r')"
    and items: "items = objs @ others"
    by (elim exE conjE) (rule that)
  from order_items_of_order_rounded [OF first] Cons.IH [OF rest] items show ?case
    by simp
qed

lemma insert_orders_and_items_Inr:
  assumes "insert_orders_and_items d r num_orders = Inr (d', r')"
  shows "\<exists>order_objs r1 item_objs.
     ids (t_customers d) \<noteq> []
     \<and> order_objects (ids (t_customers d)) (ids (t_stores d)) (nat num_orders) r = Inr (order_objs, r1)
     \<and> order_item_objects
          (last_order_ids (d\<lparr>t_orders := bulk_insert_objects (t_orders d) order_objs\<rparr>) num_orders)
          (ids (t_stores d))
          (map (\<lambda>(product_id, p). (product_id, p_base_price p)) (t_products d)) r1 = Inr (item_objs, r')
     \<and> d' = d\<lparr>t_orders := bulk_insert_objects (t_orders d) order_objs,
              t_order_items := bulk_insert_objects (t_order_items d) item_objs\<rparr>"
  using assms
  by (auto simp: insert_orders_and_items_def bind_result_Inr Let_def split: if_splits)

lemma insert_orders_and_items_rounded:
  assumes "insert_orders_and_items d r num_orders = Inr (d', r')"
  shows "\<exists>items. t_order_items d' = bulk_insert_objects (t_order_items d) items
     \<and> list_all rounded_item items"
proof -
  from insert_orders_and_items_Inr [OF assms] obtain order_objs r1 item_objs where
    items: "order_item_objects
          (last_order_ids (d\<lparr>t_orders := bulk_insert_objects (t_orders d) order_objs\<rparr>) num_orders)
          (ids (t_stores d))
          (map (\<lambda>(product_id, p). (product_id, p_base_price p)) (t_products d)) r1 = Inr (item_objs, r')"
    and d': "d' = d\<lparr>t_orders := bulk_insert_objects (t_orders d) order_objs,
              t_order_items := bulk_insert_objects (t_order_items d) item_objs\<rparr>"
    by blast
  from order_item_objects_rounded [OF items] d' show ?thesis
    by auto
qed

lemma discount_legacy_amount:
  "discount_legacy unit_price quantity r = Inr ((discount_percent, discount_amount), r') \<Longrightarrow>
   discount_amount =
     float_div (float_mul (float_mul unit_price (float_of_int quantity)) (float_of_int discount_percent)) 100"
  by (auto simp: discount_legacy_def bind_result_Inr case_prod_beta split: if_splits)

lemma order_item_legacy_unrounded:
  assumes "order_item_legacy order_id store_id product_prices product_ids r = Inr (item, r')"
  shows "unrounded_item item"
proof -
  from assms have "\<exists>unit_price r3.
      discount_legacy unit_price (loi_quantity item) r3
        = Inr ((loi_discount_percent item, loi_discount_amount item), r')
      \<and> loi_unit_price item = unit_price
      \<and> loi_total_amount item
          = float_sub (float_mul unit_price (float_of_int (loi_quantity item))) (loi_discount_amount item)"
    by (auto simp: order_item_legacy_def bind_result_Inr case_prod_beta Let_def split: option.splits) blast
  then obtain unit_price r3 where
    disc: "discount_legacy unit_price (loi_quantity item) r3
        = Inr ((loi_discount_percent item, loi_discount_amount item), r')"
    and item: "loi_unit_price item = unit_price"
      "loi_total_amount item
         = float_sub (float_mul unit_price (float_of_int (loi_quantity item))) (loi_discount_amount item)"
    by (elim exE conjE) (rule that)
  from discount_legacy_amount [OF disc] item show ?thesis
    by (simp add: unrounded_item_def)
qed

lemma order_items_legacy_unrounded:
  "order_items_legacy order_id store_id product_prices product_ids n r = Inr (items, r') \<Longrightarrow>
   list_all unrounded_item items"
proof (induction n arbitrary: r items)
  case 0
  then show ?case by simp
next
  case (Suc n)
  from Suc.prems obtain obj r1 objs where
    first: "order_item_legacy order_id store_id product_prices product_ids r = Inr (obj, r1)"
    and rest: "order_items_legacy order_id store_id product_prices product_ids n r1 = Inr (objs, r')"
    and items: "items = obj # objs"
    by (auto simp: bind_result_Inr)
  from order_item_legacy_unrounded [OF first] Suc.IH [OF rest] items show ?case
    by simp
qed

lemma one_order_legacy_unrounded:
  assumes "one_order_legacy ref customer_id order_id stores_list product_prices product_ids r
     = Inr ((order, items), r')"
  shows "list_all unrounded_item items"
proof -
  from assms have "\<exists>sid n r5.
      order_items_legacy order_id sid product_prices product_ids n r5 = Inr (items, r')"
    by (auto simp: one_order_legacy_def bind_result_Inr case_prod_beta)
  then obtain sid n r5 where
    "order_items_legacy order_id sid product_prices product_ids n r5 = Inr (items, r')"
    by (elim exE)
  then show ?thesis
    by (rule order_items_legacy_unrounded)
qed

lemma orders_of_customer_legacy_unrounded:
  "orders_of_customer_legacy ref customer_id order_id stores_list product_prices product_ids n r
     = Inr ((orders, items, next_id'), r') \<Longrightarrow>
   list_all unrounded_item items"
proof (induction n arbitrary: order_id r orders items)
  case 0
  then show ?case by simp
next
  case (Suc n)
  from Suc.prems obtain order items1 r1 orders' items2 where
    first: "one_order_legacy ref customer_id order_id stores_list product_prices product_ids r
       = Inr ((order, items1), r1)"
    and rest: "orders_of_customer_legacy ref customer_id (order_id + 1) stores_list product_prices
       product_ids n r1 = Inr ((orders', items2, next_id'), r')"
    and items: "items = items1 @ items2"
    by (auto simp: bind_result_Inr)
  from one_order_legacy_unrounded [OF first] Suc.IH [OF rest] items show ?case
    by simp
qed

lemma orders_data_legacy_unrounded:
  "orders_data_legacy ref customer_ids order_id stores_list product_prices product_ids r
     = Inr ((orders, items, last_id), r') \<Longrightarrow>
   list_all unrounded_item items"
proof (induction customer_ids arbitrary: order_id r orders items)
  case Nil
  then show ?case by simp
next
  case (Cons customer_id customer_ids)
  from Cons.prems obtain n r1 orders1 items1 next_id' r2 orders2 items2 where
    first: "orders_of_customer_legacy ref (nat customer_id) order_id stores_list product_prices
       product_ids n r1 = Inr ((orders1, items1, next_id'), r2)"
    and rest: "orders_data_legacy ref customer_ids next_id' stores_list product_prices product_ids r2
       = Inr ((orders2, items2, last_id), r')"
    and items: "items = items1 @ items2"
    by (auto simp: bind_result_Inr)
  from orders_of_customer_legacy_unrounded [OF first] Cons.IH [OF rest] items show ?case
    by simp
qed

lemma insert_orders_legacy_Inr:
  assumes "insert_orders_legacy ref d r num_customers = Inr (d', r')"
  shows "\<exists>orders_data order_items_data last_order_id.
     orders_data_legacy ref [1 .. num_customers] 1 (l_stores d) (product_prices_legacy d)
       (ids (l_products d)) r = Inr ((orders_data, order_items_data, last_order_id), r')
     \<and> \<not> list_ex (\<lambda>order. lo_store_id order = None) orders_data
     \<and> \<not> list_ex (\<lambda>item. loi_store_id item = None) order_items_data
     \<and> d' = d\<lparr>l_orders := bulk_insert_objects (l_orders d) orders_data,
              l_order_items := bulk_insert_objects (l_order_items d) order_items_data\<rparr>"
  using assms by (auto simp: insert_orders_legacy_def bind_result_Inr split: if_splits)

lemma insert_orders_legacy_unrounded:
  assumes "insert_orders_legacy ref d r num_customers = Inr (d', r')"
  shows "\<exists>items. l_order_items d' = bulk_insert_objects (l_order_items d) items
     \<and> list_all unrounded_item items"
proof -
  from insert_orders_legacy_Inr [OF assms] obtain orders_data order_items_data last_order_id where
    run: "orders_data_legacy ref [1 .. num_customers] 1 (l_stores d) (product_prices_legacy d)
       (ids (l_products d)) r = Inr ((orders_data, order_items_data, last_order_id), r')"
    and d': "d' = d\<lparr>l_orders := bulk_insert_objects (l_orders d) orders_data,
              l_order_items := bulk_insert_objects (l_order_items d) order_items_data\<rparr>"
    by blast
  from orders_data_legacy_unrounded [OF run] d' show ?thesis
    by auto
qed

text \<open>Scenario C, evaluated in float arithmetic.\<close>

lemma scenario_C_discount:
  "float_div (float_mul (float_mul 10 (float_of_int 3)) (float_of_int 10)) 100 = 3"
  by code_simp

lemma scenario_C_total:
  "float_sub (float_mul 10 (float_of_int 3)) 3 = 27"
  by code_simp

lemma round2_3: "round2 3 = 3"
  by code_simp

lemma round2_27: "round2 27 = 27"
  by code_simp

lemma scenario_C_rounded:
  assumes "rounded_item item" "oi_unit_price item = 10" "oi_quantity item = 3" "oi_discount_percent item = 10"
  shows "oi_discount_amount item = 3 \<and> oi_total_amount item = 27"
proof -
  from assms have d: "oi_discount_amount item = 3"
    by (simp add: rounded_item_def scenario_C_discount round2_3)
  from assms d have "oi_total_amount item = 27"
    by (simp add: rounded_item_def scenario_C_total round2_27)
  with d show ?thesis
    by simp
qed

lemma scenario_C_unrounded:
  assumes "unrounded_item item" "loi_unit_price item = 10" "loi_quantity item = 3" "loi_discount_percent item = 10"
  shows "loi_discount_amount item = 3 \<and> loi_total_amount item = 27"
proof -
  from assms have d: "loi_discount_amount item = 3"
    by (simp add: unrounded_item_def scenario_C_discount)
  from assms d have "loi_total_amount item = 27"
    by (simp add: unrounded_item_def scenario_C_total)
  with d show ?thesis
    by simp
qed

text \<open>
  An item of price 9.90, quantity 1 and 5 percent discount: the exact discount 0.495 is a
  tie, the float quotient lies below it, and Python stores 0.49 and 9.41.
\<close>

lemma item_990_discount:
  "round2 (float_div (float_mul (float_mul (float_round (99 / 10)) (float_of_int 1)) (float_of_int 5)) 100)
     = float_round (49 / 100)"
  by code_simp

lemma item_990_total:
  "round2 (float_sub (float_mul (float_round (99 / 10)) (float_of_int 1)) (float_round (49 / 100)))
     = float_round (941 / 100)"
  by code_simp


lemma order_objects_succeeds:
  assumes "customer_ids \<noteq> []" and "store_ids \<noteq> []"
  shows "\<exists>objs r'. order_objects customer_ids store_ids n r = Inr (objs, r')"
proof (induction n arbitrary: r)
  case 0
  then show ?case by simp
next
  case (Suc n)
  from random_choice_succeeds [OF assms(1)] obtain c r1 where c: "random_choice customer_ids r = Inr (c, r1)"
    by blast
  from random_choice_succeeds [OF assms(2)] obtain s r2 where s: "random_choice store_ids r1 = Inr (s, r2)"
    by blast
  obtain days r3 where days: "random_randint 0 730 r2 = (days, r3)"
    by (cases "random_randint 0 730 r2")
  from Suc.IH obtain objs r4 where rest: "order_objects customer_ids store_ids n r3 = Inr (objs, r4)"
    by blast
  show ?case
    by (simp add: c s days rest)
qed

lemma order_item_object_succeeds:
  assumes "product_list \<noteq> []"
  shows "\<exists>obj r'. order_item_object order_id store_id product_list r = Inr (obj, r')"
proof -
  from random_choice_succeeds [OF assms] obtain p r1 where p: "random_choice product_list r = Inr (p, r1)"
    by blast
  obtain q r2 where q: "random_randint 1 10 r1 = (q, r2)"
    by (cases "random_randint 1 10 r1")
  have "[0, 0, 0, 5, 10, 15] \<noteq> ([] :: int list)"
    by simp
  from random_choice_succeeds [OF this] obtain pct r3 where
    pct: "random_choice [0, 0, 0, 5, 10, 15 :: int] r2 = Inr (pct, r3)"
    by blast
  show ?thesis
    by (cases p) (simp add: order_item_object_def p q pct Let_def)
qed

lemma order_items_of_order_succeeds:
  assumes "product_list \<noteq> []"
  shows "\<exists>objs r'. order_items_of_order order_id store_id product_list n r = Inr (objs, r')"
proof (induction n arbitrary: r)
  case 0
  then show ?case by simp
next
  case (Suc n)
  from order_item_object_succeeds [OF assms] obtain obj r1 where
    obj: "order_item_object order_id store_id product_list r = Inr (obj, r1)"
    by blast
  from Suc.IH obtain objs r2 where
    rest: "order_items_of_order order_id store_id product_list n r1 = Inr (objs, r2)"
    by blast
  show ?case
    by (simp add: obj rest)
qed

lemma order_item_objects_succeeds:
  assumes "store_ids \<noteq> []" and "product_list \<noteq> []"
  shows "\<exists>objs r'. order_item_objects order_ids store_ids product_list r = Inr (objs, r')"
proof (induction order_ids arbitrary: r)
  case Nil
  then show ?case by simp
next
  case (Cons order_id order_ids)
  from random_choice_succeeds [OF assms(1)] obtain s r1 where s: "random_choice store_ids r = Inr (s, r1)"
    by blast
  obtain k r2 where k: "random_randint 1 5 r1 = (k, r2)"
    by (cases "random_randint 1 5 r1")
  from order_items_of_order_succeeds [OF assms(2)] obtain objs r3 where
    objs: "order_items_of_order order_id s product_list (nat k) r2 = Inr (objs, r3)"
    by blast
  from Cons.IH obtain others r4 where
    rest: "order_item_objects order_ids store_ids product_list r3 = Inr (others, r4)"
    by blast
  show ?case
    by (simp add: s k objs rest)
qed

lemma insert_orders_and_items_succeeds:
  assumes "t_customers d \<noteq> []" and "t_stores d \<noteq> []" and "t_products d \<noteq> []"
  shows "\<exists>d' r'. insert_orders_and_items d r num_orders = Inr (d', r')"
proof -
  have c: "ids (t_customers d) \<noteq> []" and s: "ids (t_stores d) \<noteq> []"
    using assms by (simp_all add: ids_def)
  have p: "map (\<lambda>(product_id, p). (product_id, p_base_price p)) (t_products d) \<noteq> []"
    using assms by simp
  from order_objects_succeeds [OF c s] obtain order_objs r1 where
    orders: "order_objects (ids (t_customers d)) (ids (t_stores d)) (nat num_orders) r = Inr (order_objs, r1)"
    by blast
  from order_item_objects_succeeds [OF s p] obtain item_objs r2 where
    items: "order_item_objects
          (last_order_ids (d\<lparr>t_orders := bulk_insert_objects (t_orders d) order_objs\<rparr>) num_orders)
          (ids (t_stores d))
          (map (\<lambda>(product_id, p). (product_id, p_base_price p)) (t_products d)) r1 = Inr (item_objs, r2)"
    by blast
  show ?thesis
    by (simp add: insert_orders_and_items_def Let_def c orders items)
qed

text \<open>
  C3 (as amended). Every order item the ORM orders stage inserts has
  \<open>discount_amount = round(unit_price * quantity * discount_percent / 100, 2)\<close> and
  \<open>total_amount = round(unit_price * quantity - discount_amount, 2)\<close>, as Python's float
  arithmetic computes them. Every order item the legacy orders stage inserts has the same
  two amounts without \<open>round\<close>. In both, an item with unit price 10.00, quantity 3 and
  discount 10 percent has the discount amount 3.00 and the total 27.00.
\<close>

theorem C3_order_item_amounts:
  "(insert_orders_and_items d r num_orders = Inr (d', r') \<longrightarrow>
      (\<exists>items. t_order_items d' = bulk_insert_objects (t_order_items d) items
         \<and> list_all rounded_item items))
   \<and> (insert_orders_legacy lref ld lr num_customers = Inr (ld', lr') \<longrightarrow>
      (\<exists>items. l_order_items ld' = bulk_insert_objects (l_order_items ld) items
         \<and> list_all unrounded_item items))
   \<and> (rounded_item item \<and> oi_unit_price item = 10 \<and> oi_quantity item = 3
        \<and> oi_discount_percent item = 10 \<longrightarrow>
      oi_discount_amount item = 3 \<and> oi_total_amount item = 27)
   \<and> (unrounded_item litem \<and> loi_unit_price litem = 10 \<and> loi_quantity litem = 3
        \<and> loi_discount_percent litem = 10 \<longrightarrow>
      loi_discount_amount litem = 3 \<and> loi_total_amount litem = 27)"
  using insert_orders_and_items_rounded [of d r num_orders d' r']
    insert_orders_legacy_unrounded [of lref ld lr num_customers ld' lr']
    scenario_C_rounded [of item] scenario_C_unrounded [of litem]
  by blast

section \<open>The statistics reporters\<close>

lemma show_database_stats_no_orders:
  "l_orders d = [] \<Longrightarrow>
   \<exists>stats. show_database_stats d = Inr stats \<and> sl_ratios stats = None
     \<and> sl_orders stats = 0 \<and> sl_customers stats = length (l_customers d)
     \<and> sl_products stats = length (l_products d)
     \<and> sl_order_items stats = length (l_order_items d)
     \<and> sl_total_revenue stats
         = sum_list (map (\<lambda>(order_item_id, item). loi_total_amount item) (l_order_items d))"
  by (simp add: show_database_stats_def Let_def)

lemma show_database_stats_Inl:
  "show_database_stats d = Inl e \<longleftrightarrow> e = ZeroDivisionError \<and> l_orders d \<noteq> [] \<and> l_customers d = []"
  by (auto simp: show_database_stats_def Let_def)







section \<open>The primary store of a customer\<close>

lemma dict_of_None_iff:
  "dict_of kvs k = None \<longleftrightarrow> k \<notin> fst ` set kvs"
  by (simp add: dict_of_def map_of_eq_None_iff)

lemma dict_of_SomeD:
  "dict_of kvs k = Some v \<Longrightarrow> (k, v) \<in> set kvs"
  by (auto simp: dict_of_def dest: map_of_SomeD)

lemma store_name_to_id_None_iff:
  "store_name_to_id d name = None \<longleftrightarrow> name \<notin> db_store_names (t_stores d)"
  by (force simp: store_name_to_id_def dict_of_None_iff db_store_names_def)

lemma store_name_to_id_SomeD:
  "store_name_to_id d name = Some sid \<Longrightarrow> sid \<in> set (ids (t_stores d))"
  by (force simp: store_name_to_id_def ids_def dest: dict_of_SomeD)

lemma primary_store_exists:
  assumes "t_stores d \<noteq> []"
  shows "get_default (store_name_to_id d) name (fst (hd (t_stores d))) \<in> set (ids (t_stores d))"
proof (cases "store_name_to_id d name")
  case None
  with assms show ?thesis
    by (simp add: get_default_def ids_def)
next
  case (Some sid)
  with store_name_to_id_SomeD [OF Some] show ?thesis
    by (simp add: get_default_def)
qed

lemma find_store_id_None_iff:
  "find_store_id store_rows name = None \<longleftrightarrow> name \<notin> db_store_names store_rows"
  by (force simp: find_store_id_def find_None_iff db_store_names_def)

lemma customer_objects_primary_store:
  "customer_objects ref m fid idxs r = Inr (objs, r') \<Longrightarrow>
   list_all (\<lambda>c. \<exists>name\<in>reference_store_names ref. c_primary_store_id c = Some (get_default m name fid)) objs"
proof (induction idxs arbitrary: r objs)
  case Nil
  then show ?case by simp
next
  case (Cons i idxs)
  from Cons.prems have "\<exists>name r3 r4 row objs'.
      weighted_store_choice ref r3 = Inr (name, r4)
      \<and> customer_objects ref m fid idxs r4 = Inr (objs', r')
      \<and> objs = row # objs' \<and> c_primary_store_id row = Some (get_default m name fid)"
    by (auto simp: bind_result_Inr case_prod_beta) (metis prod.collapse)
  then obtain name r3 r4 row objs' where
    choice: "weighted_store_choice ref r3 = Inr (name, r4)"
    and rest: "customer_objects ref m fid idxs r4 = Inr (objs', r')"
    and objs: "objs = row # objs'" "c_primary_store_id row = Some (get_default m name fid)"
    by (elim exE conjE) (rule that)
  from weighted_store_choice_name [OF choice] Cons.IH [OF rest] objs show ?case
    by auto
qed

lemma customer_objects_legacy_primary_store:
  "customer_objects_legacy ref rows idxs r = Inr (objs, r') \<Longrightarrow>
   list_all (\<lambda>c. \<exists>name\<in>set (map fst (stores_legacy ref)). c_primary_store_id c = find_store_id rows name) objs"
proof (induction idxs arbitrary: r objs)
  case Nil
  then show ?case by simp
next
  case (Cons i idxs)
  from Cons.prems have "\<exists>name r3 r4 row objs'.
      weighted_store_choice_legacy ref r3 = Inr (name, r4)
      \<and> customer_objects_legacy ref rows idxs r4 = Inr (objs', r')
      \<and> objs = row # objs' \<and> c_primary_store_id row = find_store_id rows name"
    by (auto simp: bind_result_Inr case_prod_beta) (metis prod.collapse)
  then obtain name r3 r4 row objs' where
    choice: "weighted_store_choice_legacy ref r3 = Inr (name, r4)"
    and rest: "customer_objects_legacy ref rows idxs r4 = Inr (objs', r')"
    and objs: "objs = row # objs'" "c_primary_store_id row = find_store_id rows name"
    by (elim exE conjE) (rule that)
  from weighted_store_choice_legacy_name [OF choice] Cons.IH [OF rest] objs show ?case
    by auto
qed

lemma insert_customers_primary_store:
  assumes "insert_customers ref d r n = Inr (d', r')"
  shows "\<exists>objs. t_customers d' = bulk_insert_objects (t_customers d) objs
     \<and> length objs = nat n \<and> list_all (primary_store_of ref d) objs"
proof -
  from insert_customers_Inr [OF assms] obtain objs where
    ne: "t_stores d \<noteq> []"
    and objs: "customer_objects ref (store_name_to_id d) (fst (hd (t_stores d))) [1 .. n] r = Inr (objs, r')"
    and d': "d' = d\<lparr>t_customers := bulk_insert_objects (t_customers d) objs\<rparr>"
    by blast
  have "length objs = nat n"
    using numbered_emails_length [OF customer_objects_numbered [OF objs]] by simp
  moreover have "list_all (primary_store_of ref d) objs"
    using customer_objects_primary_store [OF objs] primary_store_exists [OF ne]
    by (auto simp: list_all_iff primary_store_of_def)
  ultimately show ?thesis
    using d' by auto
qed

lemma insert_customers_legacy_primary_store:
  assumes "insert_customers_legacy ref d r n = Inr (d', r')"
  shows "\<exists>objs. l_customers d' = bulk_insert_objects (l_customers d) objs
     \<and> length objs = nat n \<and> list_all (primary_store_of_legacy ref d) objs"
proof -
  from insert_customers_legacy_Inr [OF assms] obtain objs where
    objs: "customer_objects_legacy ref (l_stores d) [1 .. n] r = Inr (objs, r')"
    and d': "d' = d\<lparr>l_customers := bulk_insert_objects (l_customers d) objs\<rparr>"
    by blast
  have "length objs = nat n"
    using numbered_emails_length [OF customer_objects_legacy_numbered [OF objs]] by simp
  moreover have "list_all (primary_store_of_legacy ref d) objs"
    using customer_objects_legacy_primary_store [OF objs]
    by (auto simp: list_all_iff primary_store_of_legacy_def)
  ultimately show ?thesis
    using d' by auto
qed

text \<open>
  C10. A customer the ORM customers stage inserts has a primary store id that is not
  null and is the id of a row of the stores table: the id the chosen store name maps to
  or, when the name is not a store name of the database, the id of the first store row.
  (The stage raises when the stores table is empty.) A customer the legacy stage inserts
  has the id of the first store row of the chosen name, and null when the name is not a
  store name of the database.
\<close>

theorem C10_primary_store:
  "(insert_customers ref d r n = Inr (d', r') \<longrightarrow>
      (\<exists>objs. t_customers d' = bulk_insert_objects (t_customers d) objs
         \<and> length objs = nat n \<and> list_all (primary_store_of ref d) objs))
   \<and> (name \<notin> db_store_names (t_stores d) \<longrightarrow>
        get_default (store_name_to_id d) name (fst (hd (t_stores d))) = fst (hd (t_stores d)))
   \<and> (insert_customers_legacy lref ld lr n = Inr (ld', lr') \<longrightarrow>
      (\<exists>objs. l_customers ld' = bulk_insert_objects (l_customers ld) objs
         \<and> length objs = nat n \<and> list_all (primary_store_of_legacy lref ld) objs))
   \<and> (name \<notin> db_store_names (l_stores ld) \<longrightarrow> find_store_id (l_stores ld) name = None)"
proof (intro conjI impI)
  assume "name \<notin> db_store_names (t_stores d)"
  then have "store_name_to_id d name = None"
    by (simp add: store_name_to_id_None_iff)
  then show "get_default (store_name_to_id d) name (fst (hd (t_stores d))) = fst (hd (t_stores d))"
    by (simp add: get_default_def)
qed (simp_all add: insert_customers_primary_store insert_customers_legacy_primary_store
    find_store_id_None_iff)


theorem C10_witness:
  "(\<exists>d' r' objs. insert_customers sample_ref foreign_store_db sample_rnd 3 = Inr (d', r')
       \<and> t_customers d' = bulk_insert_objects (t_customers foreign_store_db) objs
       \<and> length objs = 3 \<and> list_all (\<lambda>c. c_primary_store_id c = Some 1) objs)
   \<and> (\<exists>ld' lr' objs.
         insert_customers_legacy sample_ref_legacy foreign_store_db_legacy sample_rnd 3 = Inr (ld', lr')
       \<and> l_customers ld' = bulk_insert_objects (l_customers foreign_store_db_legacy) objs
       \<and> length objs = 3 \<and> list_all (\<lambda>c. c_primary_store_id c = None) objs)"
proof -
  have "t_stores foreign_store_db \<noteq> []"
    by (simp add: foreign_store_db_def)
  from insert_customers_succeeds [OF this sample_ref_weights]
  obtain d' r' where run: "insert_customers sample_ref foreign_store_db sample_rnd 3 = Inr (d', r')"
    by blast
  from insert_customers_legacy_succeeds [OF sample_ref_legacy_weights]
  obtain ld' lr' where lrun:
    "insert_customers_legacy sample_ref_legacy foreign_store_db_legacy sample_rnd 3 = Inr (ld', lr')"
    by blast
  note inst = C10_primary_store [where ref = sample_ref and d = foreign_store_db and r = sample_rnd
      and n = 3 and d' = d' and r' = r' and lref = sample_ref_legacy and ld = foreign_store_db_legacy
      and lr = sample_rnd and ld' = ld' and lr' = lr']
  from inst run obtain objs where objs:
    "t_customers d' = bulk_insert_objects (t_customers foreign_store_db) objs"
    "length objs = 3" "list_all (primary_store_of sample_ref foreign_store_db) objs"
    by auto
  from inst lrun obtain lobjs where lobjs:
    "l_customers ld' = bulk_insert_objects (l_customers foreign_store_db_legacy) lobjs"
    "length lobjs = 3" "list_all (primary_store_of_legacy sample_ref_legacy foreign_store_db_legacy) lobjs"
    by auto
  have foreign: "name \<notin> db_store_names (t_stores foreign_store_db)"
    if "name \<in> reference_store_names sample_ref" for name
    using that by (auto simp: reference_store_names_def sample_ref_def db_store_names_def
        foreign_store_db_def empty_db_def)
  have fallback: "get_default (store_name_to_id foreign_store_db) name (fst (hd (t_stores foreign_store_db))) = 1"
    if "name \<in> reference_store_names sample_ref" for name
    using inst [of name] foreign [OF that] by (simp add: foreign_store_db_def)
  have a: "list_all (\<lambda>c. c_primary_store_id c = Some 1) objs"
    using objs(3) fallback by (auto simp: list_all_iff primary_store_of_def)
  have lforeign: "name \<notin> db_store_names (l_stores foreign_store_db_legacy)"
    if "name \<in> set (map fst (stores_legacy sample_ref_legacy))" for name
    using that by (auto simp: sample_ref_legacy_def db_store_names_def
        foreign_store_db_legacy_def empty_db_legacy_def)
  have lnull: "find_store_id (l_stores foreign_store_db_legacy) name = None"
    if "name \<in> set (map fst (stores_legacy sample_ref_legacy))" for name
    using inst [of name] lforeign [OF that] by simp
  have b: "list_all (\<lambda>c. c_primary_store_id c = None) lobjs"
    using lobjs(3) lnull by (auto simp: list_all_iff primary_store_of_legacy_def)
  from run objs(1,2) a lrun lobjs(1,2) b show ?thesis
    by blast
qed

section \<open>The description embeddings\<close>














lemma sample_orders_stage_legacy:
  "(case insert_orders_legacy sample_ref_legacy sample_orders_db_legacy jitter_rnd 1 of
      Inr (d', r') \<Rightarrow>
        map (\<lambda>(order_item_id, item). (order_item_id, loi_unit_price item, loi_quantity item,
               loi_discount_percent item, loi_discount_amount item, loi_total_amount item))
          (l_order_items d')
        = [(1, float_round (2123 / 250), 1, 0, 0, float_round (2123 / 250))]
    | Inl e \<Rightarrow> False)"
  by code_simp

lemma sample_orders_run_legacy:
  "\<exists>d' r' item. insert_orders_legacy sample_ref_legacy sample_orders_db_legacy jitter_rnd 1 = Inr (d', r')
     \<and> l_order_items d' = [(1, item)]
     \<and> loi_unit_price item = float_round (2123 / 250) \<and> loi_quantity item = 1
     \<and> loi_discount_amount item = 0 \<and> loi_total_amount item = float_round (2123 / 250)"
proof (cases "insert_orders_legacy sample_ref_legacy sample_orders_db_legacy jitter_rnd 1")
  case (Inl e)
  with sample_orders_stage_legacy show ?thesis
    by simp
next
  case (Inr res)
  obtain d' r' where res: "res = (d', r')"
    by (cases res)
  from sample_orders_stage_legacy Inr res
  have "map (\<lambda>(order_item_id, item). (order_item_id, loi_unit_price item, loi_quantity item,
               loi_discount_percent item, loi_discount_amount item, loi_total_amount item))
          (l_order_items d')
        = [(1, float_round (2123 / 250), 1, 0, 0, float_round (2123 / 250))]"
    by simp
  then have "\<exists>item. l_order_items d' = [(1, item)]
     \<and> loi_unit_price item = float_round (2123 / 250) \<and> loi_quantity item = 1
     \<and> loi_discount_amount item = 0 \<and> loi_total_amount item = float_round (2123 / 250)"
    by (auto simp: map_eq_Cons_conv)
  with Inr res show ?thesis
    by auto
qed

lemma jittered_total_differs:
  "float_round (2123 / 250)
     \<noteq> round2 (float_sub (float_mul (float_round (2123 / 250)) (float_of_int 1)) 0)"
  by code_simp

text \<open>
  The claim as stated fails in the legacy stage: with a price factor of 0.8492 on a base
  price of 10, the item's total is the float 8.492, not 8.49.
\<close>

theorem C3_counterexample:
  "\<exists>d' r' item. insert_orders_legacy sample_ref_legacy sample_orders_db_legacy jitter_rnd 1 = Inr (d', r')
     \<and> (1, item) \<in> set (l_order_items d')
     \<and> loi_total_amount item
         \<noteq> round2 (float_sub (float_mul (loi_unit_price item) (float_of_int (loi_quantity item)))
                     (loi_discount_amount item))"
proof -
  from sample_orders_run_legacy obtain d' r' item where
    run: "insert_orders_legacy sample_ref_legacy sample_orders_db_legacy jitter_rnd 1 = Inr (d', r')"
    and items: "l_order_items d' = [(1, item)]"
    and item: "loi_unit_price item = float_round (2123 / 250)" "loi_quantity item = 1"
      "loi_discount_amount item = 0" "loi_total_amount item = float_round (2123 / 250)"
    by (elim exE conjE) (rule that)
  have "loi_total_amount item
      \<noteq> round2 (float_sub (float_mul (loi_unit_price item) (float_of_int (loi_quantity item)))
                  (loi_discount_amount item))"
    unfolding item by (rule jittered_total_differs)
  moreover have "(1, item) \<in> set (l_order_items d')"
    unfolding items by simp
  ultimately show ?thesis
    using run by blast
qed

theorem C3_witness:
  "(\<exists>d' r' items. insert_orders_and_items sample_orders_db sample_rnd 4 = Inr (d', r')
      \<and> t_order_items d' = bulk_insert_objects (t_order_items sample_orders_db) items
      \<and> list_all rounded_item items)
   \<and> (\<exists>ld' lr' items. insert_orders_legacy sample_ref_legacy sample_orders_db_legacy jitter_rnd 1 = Inr (ld', lr')
      \<and> l_order_items ld' = bulk_insert_objects (l_order_items sample_orders_db_legacy) items
      \<and> list_all unrounded_item items)
   \<and> (rounded_item scenario_item \<and> oi_unit_price scenario_item = 10
        \<and> oi_quantity scenario_item = 3 \<and> oi_discount_percent scenario_item = 10
        \<and> oi_discount_amount scenario_item = 3 \<and> oi_total_amount scenario_item = 27)"
proof -
  have "t_customers sample_orders_db \<noteq> []" "t_stores sample_orders_db \<noteq> []"
    "t_products sample_orders_db \<noteq> []"
    by (simp_all add: sample_orders_db_def)
  from insert_orders_and_items_succeeds [OF this] obtain d' r' where
    run: "insert_orders_and_items sample_orders_db sample_rnd 4 = Inr (d', r')"
    by blast
  from sample_orders_run_legacy obtain ld' lr' where
    lrun: "insert_orders_legacy sample_ref_legacy sample_orders_db_legacy jitter_rnd 1 = Inr (ld', lr')"
    by blast
  have scenario: "rounded_item scenario_item \<and> oi_unit_price scenario_item = 10
      \<and> oi_quantity scenario_item = 3 \<and> oi_discount_percent scenario_item = 10"
    by (simp add: scenario_item_def rounded_item_def scenario_C_discount round2_3)
  note inst = C3_order_item_amounts [of sample_orders_db sample_rnd 4 d' r'
      sample_ref_legacy sample_orders_db_legacy jitter_rnd 1 ld' lr' scenario_item]
  from inst run lrun scenario show ?thesis
    by blast
qed

end
